theory Spec2Isabelle
  imports Complex_Main "HOL-Library.Sublist"
begin

section \<open>JavaScript strings\<close>

text \<open>
  A JavaScript string is modelled as a \<^typ>\<open>string\<close>: a list of code units, each below 256
  (the Latin-1 range), so \<^term>\<open>length\<close> is the \<^verbatim>\<open>.length\<close> that zod's \<^verbatim>\<open>min\<close> and
  \<^verbatim>\<open>max\<close> count. Code units from 256 on are outside the model.

  \<^verbatim>\<open>String.prototype.trim\<close> strips the WhiteSpace and LineTerminator code points; below 256
  these are TAB, LF, VT, FF, CR, SPACE and NO-BREAK SPACE.
\<close>

definition is_ws :: "char \<Rightarrow> bool" where
  "is_ws c = (of_char c \<in> {9, 10, 11, 12, 13, 32, 160 :: nat})"

definition trim :: "string \<Rightarrow> string" where
  "trim s = rev (dropWhile is_ws (rev (dropWhile is_ws s)))"

text \<open>
  \<^verbatim>\<open>toLowerCase\<close> on Latin-1: the letters A-Z (65-90) and the accented capitals 192-222
  other than the multiplication sign 215 move up by 32, which sets bit 5 of the code unit.
\<close>

fun lower_char :: "char \<Rightarrow> char" where
  "lower_char (Char b0 b1 b2 b3 b4 b5 b6 b7) =
     (let n = (of_char (Char b0 b1 b2 b3 b4 b5 b6 b7) :: nat) in
      if (65 \<le> n \<and> n \<le> 90) \<or> (192 \<le> n \<and> n \<le> 222 \<and> n \<noteq> 215)
      then Char b0 b1 b2 b3 b4 True b6 b7
      else Char b0 b1 b2 b3 b4 b5 b6 b7)"

definition toLowerCase :: "string \<Rightarrow> string" where
  "toLowerCase s = map lower_char s"

definition startsWith :: "string \<Rightarrow> string \<Rightarrow> bool" where
  "startsWith s p = prefix p s"

definition js_includes :: "string \<Rightarrow> string \<Rightarrow> bool" where
  "js_includes s p = sublist p s"

text \<open>
  \<^verbatim>\<open>Array.prototype.slice(start)\<close> with one argument: a negative start counts from the
  end and is clamped at 0, a non-negative start is clamped at the length.
\<close>

definition slice_from :: "int \<Rightarrow> 'a list \<Rightarrow> 'a list" where
  "slice_from start xs =
     (let len = int (length xs);
          k = (if start < 0 then max (len + start) 0 else min start len)
      in drop (nat k) xs)"

text \<open>\<^verbatim>\<open>a || b\<close> on an optional string: the empty string and \<^verbatim>\<open>undefined\<close> are falsy.\<close>

definition or_else :: "string option \<Rightarrow> string \<Rightarrow> string" where
  "or_else a b = (case a of None \<Rightarrow> b | Some s \<Rightarrow> if s = [] then b else s)"


section \<open>Data model (conversationService.ts)\<close>

datatype sender = User | Ai

text \<open>
  The \<^verbatim>\<open>Message\<close> and \<^verbatim>\<open>Conversation\<close> interfaces. A row of the \<^verbatim>\<open>messages\<close> or
  \<^verbatim>\<open>conversations\<close> table has the same columns, so one record serves for the row and for
  the object \<^verbatim>\<open>getMessages\<close> and \<^verbatim>\<open>getConversation\<close> build from it. Fields carry a prefix
  because \<^verbatim>\<open>id\<close> and \<^verbatim>\<open>text\<close> are taken in Isabelle.
\<close>

record message =
  m_id :: string
  m_conversationId :: string
  m_sender :: sender
  m_text :: string
  m_timestamp :: int

record conversation =
  c_id :: string
  c_createdAt :: int
  c_updatedAt :: int

text \<open>
  What the code throws: a \<^verbatim>\<open>ZodError\<close> from \<^verbatim>\<open>messageSchema.parse\<close>, a plain
  \<^verbatim>\<open>Error(message)\<close>, or better-sqlite3's \<^verbatim>\<open>SqliteError\<close> with SQLite's message when a
  constraint of the schema rejects a statement.
\<close>

datatype exn = ZodError | Error string | SqliteError string


section \<open>The LLM service (llmService.ts)\<close>

subsection \<open>Configuration and collaborators\<close>

record process_env =
  LLM_PROVIDER :: "string option"
  OPENAI_API_KEY :: "string option"
  GROQ_API_KEY :: "string option"
  GEMINI_API_KEY :: "string option"

datatype provider = OpenAI | Groq | Gemini

datatype chat_role = Role_system | Role_user | Role_assistant

record chat_param =
  role :: chat_role
  content :: string

record chat_request =
  model :: string
  messages :: "chat_param list"
  max_tokens :: nat
  temperature :: rat

text \<open>
  What a vendor SDK call rejects with, as far as \<^verbatim>\<open>handleError\<close> reads it: an object
  with \<^verbatim>\<open>error.status\<close>, \<^verbatim>\<open>error.response.status\<close>, \<^verbatim>\<open>error.code\<close> and
  \<^verbatim>\<open>error.message\<close>, each possibly undefined.
\<close>

record js_error =
  e_status :: "int option"
  e_response_status :: "int option"
  e_code :: "string option"
  e_message :: "string option"

text \<open>\<^verbatim>\<open>new Error(msg)\<close> as the catch block sees it: a message and nothing else.\<close>

definition new_Error :: "string \<Rightarrow> js_error" where
  "new_Error msg =
     \<lparr>e_status = None, e_response_status = None, e_code = None, e_message = Some msg\<rparr>"

text \<open>
  The hosted backends, the hash function and zod's \<^verbatim>\<open>uuid()\<close> format check are
  outside the repository; they are parameters. A chat completion answers with
  \<^verbatim>\<open>choices[0]?.message?.content\<close>, which may be missing; Gemini's \<^verbatim>\<open>response.text()\<close>
  is a string. Either call may reject.
\<close>

record deps =
  env :: process_env
  zod_uuid :: "string \<Rightarrow> bool"
  sha256_hex :: "string \<Rightarrow> string"
  openai_create :: "chat_request \<Rightarrow> js_error + string option"
  groq_create :: "chat_request \<Rightarrow> js_error + string option"
  gemini_generateContent :: "string \<Rightarrow> js_error + string"

text \<open>
  One entry per call the adapter makes to an SDK's \<^verbatim>\<open>create\<close> or \<^verbatim>\<open>generateContent\<close>,
  in order. What the SDK does inside one call (its own retries) is not counted.
\<close>

datatype backend_call = Chat_call provider chat_request | Gemini_call string

definition STORE_KNOWLEDGE :: string where
  \<open>STORE_KNOWLEDGE = ''\<newline>You are a helpful and friendly customer support agent for "SpurStore", a small e-commerce store specializing in tech accessories and gadgets.\<newline>\<newline>Store Information:\<newline>- Shipping Policy: We offer free shipping on orders over $50. Standard shipping (5-7 business days) is $5.99. Express shipping (2-3 business days) is $12.99. We ship to USA, Canada, UK, and Australia.\<newline>- Return/Refund Policy: Items can be returned within 30 days of purchase in original condition. Full refunds are processed within 5-7 business days after we receive the item. Items must be unopened and in original packaging.\<newline>- Support Hours: Our support team is available Monday-Friday, 9 AM - 6 PM EST. We respond to emails within 24 hours.\<newline>- Payment Methods: We accept all major credit cards, PayPal, Apple Pay, and Google Pay.\<newline>- Product Warranty: All products come with a 1-year manufacturer warranty. Extended warranties available at checkout.\<newline>\<newline>Guidelines:\<newline>- Be concise and helpful (2-3 sentences max per response)\<newline>- Use a friendly, professional tone\<newline>- If asked about something not in your knowledge base, politely say you'll need to check with the team and ask them to email support@spurstore.com\<newline>- Always end with a helpful follow-up question or offer to help with something else\<newline>''\<close>

definition maxTokens :: nat where
  "maxTokens = 200"

definition maxHistoryMessages :: int where
  "maxHistoryMessages = 10"

definition getProvider :: "process_env \<Rightarrow> provider" where
  "getProvider e =
     (let llmProvider = trim (toLowerCase (or_else (LLM_PROVIDER e) ''openai'')) in
      if llmProvider = ''groq'' then Groq
      else if llmProvider = ''gemini'' then Gemini
      else OpenAI)"

subsection \<open>Error normalisation\<close>

text \<open>
  \<^verbatim>\<open>error?.status || error?.response?.status\<close>: a status that is undefined or 0 is falsy
  and gives way to the response's.
\<close>

definition error_status :: "js_error \<Rightarrow> int option" where
  "error_status e =
     (case e_status e of
        None \<Rightarrow> e_response_status e
      | Some s \<Rightarrow> if s = 0 then e_response_status e else Some s)"

definition is_timeout :: "js_error \<Rightarrow> bool" where
  "is_timeout e =
     (e_code e = Some ''ECONNABORTED'' \<or>
      (case e_message e of None \<Rightarrow> False | Some m \<Rightarrow> js_includes m ''timeout''))"

text \<open>\<^verbatim>\<open>handleError\<close> never returns; the value is the \<^verbatim>\<open>Error\<close> it throws.\<close>

definition handleError :: "js_error \<Rightarrow> string \<Rightarrow> exn" where
  "handleError error provider =
     (let status = error_status error in
      if status = Some 401 then
        Error (''Invalid '' @ provider @ '' API key. Please check your API key.'')
      else if status = Some 429 then
        Error (provider @ '' rate limit exceeded. Please wait a moment and try again.'')
      else if status = Some 503 then
        Error (provider @ '' service temporarily unavailable. Please try again in a moment.'')
      else if is_timeout error then
        Error (''Request to '' @ provider @ '' timed out. Please try again.'')
      else
        Error (''Failed to generate reply with '' @ provider @ '': '' @
               or_else (e_message error) ''Unknown error''))"

subsection \<open>Prompt assembly\<close>

definition recentHistory :: "message list \<Rightarrow> message list" where
  "recentHistory conversationHistory = slice_from (- maxHistoryMessages) conversationHistory"

definition to_param :: "message \<Rightarrow> chat_param" where
  "to_param msg =
     \<lparr>role = (if m_sender msg = User then Role_user else Role_assistant),
      content = m_text msg\<rparr>"

definition chat_messages :: "string \<Rightarrow> message list \<Rightarrow> chat_param list" where
  "chat_messages userMessage conversationHistory =
     [\<lparr>role = Role_system, content = STORE_KNOWLEDGE\<rparr>] @
     map to_param (recentHistory conversationHistory) @
     [\<lparr>role = Role_user, content = userMessage\<rparr>]"

definition groq_request :: "string \<Rightarrow> message list \<Rightarrow> chat_request" where
  "groq_request userMessage conversationHistory =
     \<lparr>model = ''llama-3.1-8b-instant'',
      messages = chat_messages userMessage conversationHistory,
      max_tokens = maxTokens, temperature = 7 / 10\<rparr>"

definition openai_request :: "string \<Rightarrow> message list \<Rightarrow> chat_request" where
  "openai_request userMessage conversationHistory =
     \<lparr>model = ''gpt-3.5-turbo'',
      messages = chat_messages userMessage conversationHistory,
      max_tokens = maxTokens, temperature = 7 / 10\<rparr>"

definition gemini_line :: "message \<Rightarrow> string" where
  "gemini_line msg =
     (if m_sender msg = User then ''Customer'' else ''Agent'') @ '': '' @ m_text msg @ ''\<newline>''"

definition gemini_context :: "string \<Rightarrow> message list \<Rightarrow> string" where
  "gemini_context userMessage conversationHistory =
     STORE_KNOWLEDGE @ ''\<newline>\<newline>Conversation History:\<newline>'' @
     concat (map gemini_line (recentHistory conversationHistory)) @
     ''\<newline>Customer: '' @ userMessage @ ''\<newline>Agent:''"

subsection \<open>The three provider variants\<close>

text \<open>
  Each variant returns what the call returns or throws, and the requests it sent to its
  backend. The credential check stands before the \<^verbatim>\<open>try\<close>, so its error is thrown as
  it is; everything thrown inside the \<^verbatim>\<open>try\<close>, the empty-response error included, goes
  through \<^const>\<open>handleError\<close>.
\<close>

definition generateWithGroq ::
  "deps \<Rightarrow> string \<Rightarrow> message list \<Rightarrow> (exn + string) \<times> backend_call list" where
  "generateWithGroq d userMessage conversationHistory =
     (case GROQ_API_KEY (env d) of
        None \<Rightarrow> (Inl (Error ''Groq API key not configured. Please set a valid GROQ_API_KEY in backend/.env file. Get free key at https://console.groq.com/keys''), [])
      | Some key \<Rightarrow>
          if key = [] \<or> trim key = [] \<or> key = ''your_groq_api_key_here'' \<or>
             \<not> startsWith key ''gsk_''
          then (Inl (Error ''Groq API key not configured. Please set a valid GROQ_API_KEY in backend/.env file. Get free key at https://console.groq.com/keys''), [])
          else
            (let request = groq_request userMessage conversationHistory in
             (case groq_create d request of
                Inl error \<Rightarrow> Inl (handleError error ''Groq'')
              | Inr completion \<Rightarrow>
                  (case map_option trim completion of
                     None \<Rightarrow> Inl (handleError (new_Error ''Empty response from Groq'') ''Groq'')
                   | Some reply \<Rightarrow>
                       if reply = []
                       then Inl (handleError (new_Error ''Empty response from Groq'') ''Groq'')
                       else Inr reply),
              [Chat_call Groq request])))"

definition generateWithGemini ::
  "deps \<Rightarrow> string \<Rightarrow> message list \<Rightarrow> (exn + string) \<times> backend_call list" where
  "generateWithGemini d userMessage conversationHistory =
     (case GEMINI_API_KEY (env d) of
        None \<Rightarrow> (Inl (Error ''Gemini API key not configured. Please set GEMINI_API_KEY in backend/.env file. Get free key at https://aistudio.google.com/app/apikey''), [])
      | Some key \<Rightarrow>
          if key = [] \<or> key = ''your_gemini_api_key_here''
          then (Inl (Error ''Gemini API key not configured. Please set GEMINI_API_KEY in backend/.env file. Get free key at https://aistudio.google.com/app/apikey''), [])
          else
            (let conversationContext = gemini_context userMessage conversationHistory in
             (case gemini_generateContent d conversationContext of
                Inl error \<Rightarrow> Inl (handleError error ''Gemini'')
              | Inr text \<Rightarrow>
                  (let reply = trim text in
                   if reply = []
                   then Inl (handleError (new_Error ''Empty response from Gemini'') ''Gemini'')
                   else Inr reply),
              [Gemini_call conversationContext])))"

definition generateWithOpenAI ::
  "deps \<Rightarrow> string \<Rightarrow> message list \<Rightarrow> (exn + string) \<times> backend_call list" where
  "generateWithOpenAI d userMessage conversationHistory =
     (let isValidApiKey =
        (case OPENAI_API_KEY (env d) of
           None \<Rightarrow> False
         | Some key \<Rightarrow>
             key \<noteq> [] \<and> trim key \<noteq> [] \<and> key \<noteq> ''your_openai_api_key_here'' \<and>
             startsWith key ''sk-'')
      in
      if \<not> isValidApiKey
      then (Inl (Error ''OpenAI API key not configured. Please set a valid OPENAI_API_KEY in backend/.env file. Get your key at https://platform.openai.com/api-keys''), [])
      else
        (let request = openai_request userMessage conversationHistory in
         (case openai_create d request of
            Inl error \<Rightarrow> Inl (handleError error ''OpenAI'')
          | Inr completion \<Rightarrow>
              (case map_option trim completion of
                 None \<Rightarrow> Inl (handleError (new_Error ''Empty response from OpenAI'') ''OpenAI'')
               | Some reply \<Rightarrow>
                   if reply = []
                   then Inl (handleError (new_Error ''Empty response from OpenAI'') ''OpenAI'')
                   else Inr reply),
          [Chat_call OpenAI request])))"


section \<open>The response cache (cacheService.ts)\<close>

text \<open>
  The Redis side as the service sees it: \<open>None\<close> when \<^verbatim>\<open>getRedisClient()\<close> gives no client
  (not configured, or the connection failed), otherwise the key-value store. The expiry
  after \<^verbatim>\<open>TTL\<close> seconds is real time and is not modelled. A client call that rejects is
  caught by the service and behaves like no client.
\<close>

type_synonym redis = "(string \<rightharpoonup> string) option"

definition getCacheKey :: "deps \<Rightarrow> string \<Rightarrow> string" where
  "getCacheKey d userMessage =
     (let normalized = trim (toLowerCase userMessage);
          hash = sha256_hex d normalized
      in ''chat:'' @ hash)"

definition cache_get :: "deps \<Rightarrow> redis \<Rightarrow> string \<Rightarrow> string option" where
  "cache_get d r userMessage =
     (case r of None \<Rightarrow> None | Some client \<Rightarrow> client (getCacheKey d userMessage))"

definition cache_set :: "deps \<Rightarrow> redis \<Rightarrow> string \<Rightarrow> string \<Rightarrow> redis" where
  "cache_set d r userMessage reply =
     (case r of
        None \<Rightarrow> None
      | Some client \<Rightarrow> Some (client(getCacheKey d userMessage \<mapsto> reply)))"

text \<open>\<^verbatim>\<open>if (cached)\<close>: null and the empty string are falsy.\<close>

definition truthy :: "string option \<Rightarrow> string option" where
  "truthy c = (case c of None \<Rightarrow> None | Some s \<Rightarrow> if s = [] then None else Some s)"

text \<open>
  \<^verbatim>\<open>generateReply\<close> returns the reply or the error, the cache after the call and the
  requests sent to a backend.
\<close>

definition generateReply ::
  "deps \<Rightarrow> redis \<Rightarrow> string \<Rightarrow> message list \<Rightarrow> (exn + string) \<times> redis \<times> backend_call list" where
  "generateReply d r userMessage conversationHistory =
     (case (if length conversationHistory = 0 then truthy (cache_get d r userMessage) else None) of
        Some cached \<Rightarrow> (Inr cached, r, [])
      | None \<Rightarrow>
          (let (result, calls) =
             (case getProvider (env d) of
                Groq \<Rightarrow> generateWithGroq d userMessage conversationHistory
              | Gemini \<Rightarrow> generateWithGemini d userMessage conversationHistory
              | OpenAI \<Rightarrow> generateWithOpenAI d userMessage conversationHistory)
           in
           (case result of
              Inl e \<Rightarrow> (Inl e, r, calls)
            | Inr reply \<Rightarrow>
                (Inr reply,
                 (if length conversationHistory = 0 then cache_set d r userMessage reply else r),
                 calls))))"


section \<open>The persistence store (database.ts, conversationService.ts)\<close>

text \<open>
  The two tables, rows in insertion order. The schema's constraints are part of the
  statements: a primary key on each \<^verbatim>\<open>id\<close>, and the foreign key of
  \<^verbatim>\<open>messages.conversation_id\<close> (the connection sets \<^verbatim>\<open>foreign_keys = ON\<close>). The
  \<^verbatim>\<open>CHECK\<close> on \<^verbatim>\<open>sender\<close> holds by the type. Storage I/O failures are not modelled.
\<close>

record db =
  tbl_conversations :: "conversation list"
  tbl_messages :: "message list"

definition empty_db :: db where
  "empty_db = \<lparr>tbl_conversations = [], tbl_messages = []\<rparr>"

definition insert_conversation :: "db \<Rightarrow> conversation \<Rightarrow> exn + db" where
  "insert_conversation d c =
     (if c_id c \<in> c_id ` set (tbl_conversations d)
      then Inl (SqliteError ''UNIQUE constraint failed: conversations.id'')
      else Inr (d\<lparr>tbl_conversations := tbl_conversations d @ [c]\<rparr>))"

definition insert_message :: "db \<Rightarrow> message \<Rightarrow> exn + db" where
  "insert_message d m =
     (if m_id m \<in> m_id ` set (tbl_messages d)
      then Inl (SqliteError ''UNIQUE constraint failed: messages.id'')
      else if m_conversationId m \<notin> c_id ` set (tbl_conversations d)
      then Inl (SqliteError ''FOREIGN KEY constraint failed'')
      else Inr (d\<lparr>tbl_messages := tbl_messages d @ [m]\<rparr>))"

definition update_conversation :: "db \<Rightarrow> int \<Rightarrow> string \<Rightarrow> db" where
  "update_conversation d ts conversationId =
     d\<lparr>tbl_conversations :=
         map (\<lambda>c. if c_id c = conversationId then c\<lparr>c_updatedAt := ts\<rparr> else c)
             (tbl_conversations d)\<rparr>"

text \<open>
  The service's methods take the database, the value \<^verbatim>\<open>uuidv4()\<close> draws and the reading
  of \<^verbatim>\<open>Date.now()\<close> in milliseconds, and return what the method returns or throws together
  with the database afterwards.
\<close>

definition createConversation :: "db \<Rightarrow> string \<Rightarrow> int \<Rightarrow> (exn + string) \<times> db" where
  "createConversation d uuid now_ms =
     (let id = uuid;
          now = now_ms div 1000
      in case insert_conversation d \<lparr>c_id = id, c_createdAt = now, c_updatedAt = now\<rparr> of
           Inl e \<Rightarrow> (Inl e, d)
         | Inr d' \<Rightarrow> (Inr id, d'))"

definition getConversation :: "db \<Rightarrow> string \<Rightarrow> conversation option" where
  "getConversation d conversationId =
     find (\<lambda>c. c_id c = conversationId) (tbl_conversations d)"

text \<open>
  \<^verbatim>\<open>addMessage\<close> runs its two write statements one after the other, outside any
  transaction, so each commits on its own. \<open>addMessage_steps\<close> gives the outcome and the
  database after each committed write, in order: what a reader on another connection
  finds between the statements, and what is left when the process stops there.
  \<open>addMessage\<close> is the outcome with the last of these states.
\<close>

definition addMessage_steps ::
  "db \<Rightarrow> string \<Rightarrow> int \<Rightarrow> string \<Rightarrow> sender \<Rightarrow> string \<Rightarrow> (exn + message) \<times> db list" where
  "addMessage_steps d uuid now_ms conversationId sender text =
     (let id = uuid;
          timestamp = now_ms div 1000
      in case getConversation d conversationId of
           None \<Rightarrow> (Inl (Error ''Conversation not found''), [])
         | Some conversation \<Rightarrow>
             (let msg = \<lparr>m_id = id, m_conversationId = conversationId, m_sender = sender,
                         m_text = text, m_timestamp = timestamp\<rparr>
              in case insert_message d msg of
                   Inl e \<Rightarrow> (Inl e, [])
                 | Inr d1 \<Rightarrow>
                     (Inr msg, [d1, update_conversation d1 timestamp conversationId])))"

definition addMessage ::
  "db \<Rightarrow> string \<Rightarrow> int \<Rightarrow> string \<Rightarrow> sender \<Rightarrow> string \<Rightarrow> (exn + message) \<times> db" where
  "addMessage d uuid now_ms conversationId sender text =
     (let (result, commits) = addMessage_steps d uuid now_ms conversationId sender text
      in (result, last (d # commits)))"

text \<open>
  \<^verbatim>\<open>getMessages\<close> has no throwing path. SQL leaves the order of rows with equal
  timestamps open under \<^verbatim>\<open>ORDER BY timestamp ASC\<close>; the model keeps them in insertion
  order (a stable sort), the order in which SQLite's scan meets them here.
\<close>

definition getMessages :: "db \<Rightarrow> string \<Rightarrow> message list" where
  "getMessages d conversationId =
     sort_key m_timestamp (filter (\<lambda>m. m_conversationId m = conversationId) (tbl_messages d))"

subsection \<open>Invariants of the store\<close>

text \<open>
  The data model's invariant on timestamps: a conversation's updated-timestamp is not
  before its created-timestamp nor before the timestamp of any of its messages.
  \<open>not_after\<close> says that nothing stored is later than a clock reading, and \<open>fk_ok\<close> is
  the foreign key: every message belongs to a stored conversation.
\<close>

definition timestamps_ok :: "db \<Rightarrow> bool" where
  "timestamps_ok d =
     (\<forall>c \<in> set (tbl_conversations d).
        c_createdAt c \<le> c_updatedAt c \<and>
        (\<forall>m \<in> set (tbl_messages d).
           m_conversationId m = c_id c \<longrightarrow> m_timestamp m \<le> c_updatedAt c))"

definition not_after :: "db \<Rightarrow> int \<Rightarrow> bool" where
  "not_after d now_ms =
     ((\<forall>c \<in> set (tbl_conversations d). c_updatedAt c \<le> now_ms div 1000) \<and>
      (\<forall>m \<in> set (tbl_messages d). m_timestamp m \<le> now_ms div 1000))"

definition fk_ok :: "db \<Rightarrow> bool" where
  "fk_ok d = (m_conversationId ` set (tbl_messages d) \<subseteq> c_id ` set (tbl_conversations d))"

text \<open>
  A sequence of store operations, each with what it draws from \<^verbatim>\<open>uuidv4()\<close> and
  \<^verbatim>\<open>Date.now()\<close>. An operation that throws leaves the database as it found it.
\<close>

datatype store_op =
  Create_conversation string int
| Append_message string int string sender string

fun op_now :: "store_op \<Rightarrow> int" where
  "op_now (Create_conversation uuid now_ms) = now_ms"
| "op_now (Append_message uuid now_ms conversationId sender text) = now_ms"

fun run_op :: "db \<Rightarrow> store_op \<Rightarrow> db" where
  "run_op d (Create_conversation uuid now_ms) = snd (createConversation d uuid now_ms)"
| "run_op d (Append_message uuid now_ms conversationId sender text) =
     snd (addMessage d uuid now_ms conversationId sender text)"

definition run_ops :: "db \<Rightarrow> store_op list \<Rightarrow> db" where
  "run_ops d ops = foldl run_op d ops"


section \<open>The request handler (routes/chat.ts, middleware/errorHandler.ts)\<close>

text \<open>
  A field of the JSON body: missing, a string, or any other JSON value.
\<close>

datatype jsval = Undefined | Str string | Other

record body =
  b_message :: jsval
  b_sessionId :: jsval

text \<open>
  \<^verbatim>\<open>messageSchema.parse\<close>: \<^verbatim>\<open>message\<close> is a string of 1 to 5000 code units, \<^verbatim>\<open>sessionId\<close>
  is missing or a string in UUID format.
\<close>

definition messageSchema_parse :: "deps \<Rightarrow> body \<Rightarrow> exn + string \<times> string option" where
  "messageSchema_parse dp b =
     (case b_message b of
        Str message \<Rightarrow>
          if 1 \<le> length message \<and> length message \<le> 5000 then
            (case b_sessionId b of
               Undefined \<Rightarrow> Inr (message, None)
             | Str sessionId \<Rightarrow>
                 if zod_uuid dp sessionId then Inr (message, Some sessionId) else Inl ZodError
             | Other \<Rightarrow> Inl ZodError)
          else Inl ZodError
      | Undefined \<Rightarrow> Inl ZodError
      | Other \<Rightarrow> Inl ZodError)"

datatype response =
  Json_reply string string
| Bad_request
| Server_error string

text \<open>
  The \<^verbatim>\<open>catch\<close> of the route answers a \<^verbatim>\<open>ZodError\<close> with status 400; anything else goes
  to \<^verbatim>\<open>errorHandler\<close>, which answers 500 with the error's message.
\<close>

definition respond_error :: "exn \<Rightarrow> response" where
  "respond_error e =
     (case e of
        ZodError \<Rightarrow> Bad_request
      | Error msg \<Rightarrow> Server_error (or_else (Some msg) ''An error occurred. Please try again later.'')
      | SqliteError msg \<Rightarrow>
          Server_error (or_else (Some msg) ''An error occurred. Please try again later.''))"

text \<open>
  What one request draws: an identifier and a clock reading for the conversation it may
  create, for the user message and for the reply.
\<close>

record draws =
  conv_uuid :: string
  conv_now :: int
  user_uuid :: string
  user_now :: int
  ai_uuid :: string
  ai_now :: int

text \<open>Lines 17 to 27: the conversation the turn belongs to, created when there is none.\<close>

definition resolve_conversation ::
  "draws \<Rightarrow> string option \<Rightarrow> db \<Rightarrow> (exn + string) \<times> db" where
  "resolve_conversation dr sessionId d =
     (case sessionId of
        None \<Rightarrow> createConversation d (conv_uuid dr) (conv_now dr)
      | Some conversationId \<Rightarrow>
          if conversationId = [] then createConversation d (conv_uuid dr) (conv_now dr)
          else
            (case getConversation d conversationId of
               None \<Rightarrow> createConversation d (conv_uuid dr) (conv_now dr)
             | Some conversation \<Rightarrow> (Inr conversationId, d)))"

text \<open>Lines 34 to 47: the turn itself.\<close>

definition handle_turn ::
  "deps \<Rightarrow> draws \<Rightarrow> string \<Rightarrow> string \<Rightarrow> db \<Rightarrow> redis \<Rightarrow>
   response \<times> db \<times> redis \<times> backend_call list" where
  "handle_turn dp dr conversationId message d r =
     (case addMessage d (user_uuid dr) (user_now dr) conversationId User message of
        (Inl e, d1) \<Rightarrow> (respond_error e, d1, r, [])
      | (Inr saved, d1) \<Rightarrow>
          (let history = getMessages d1 conversationId in
           case generateReply dp r message history of
             (Inl e, r', calls) \<Rightarrow> (respond_error e, d1, r', calls)
           | (Inr reply, r', calls) \<Rightarrow>
               (case addMessage d1 (ai_uuid dr) (ai_now dr) conversationId Ai reply of
                  (Inl e, d2) \<Rightarrow> (respond_error e, d2, r', calls)
                | (Inr saved', d2) \<Rightarrow> (Json_reply reply conversationId, d2, r', calls))))"

text \<open>
  \<^verbatim>\<open>POST /message\<close>: the response, the database and the cache after the request, and the
  requests sent to a backend.
\<close>

definition post_message ::
  "deps \<Rightarrow> draws \<Rightarrow> body \<Rightarrow> db \<Rightarrow> redis \<Rightarrow> response \<times> db \<times> redis \<times> backend_call list" where
  "post_message dp dr b d r =
     (case messageSchema_parse dp b of
        Inl e \<Rightarrow> (respond_error e, d, r, [])
      | Inr (message, sessionId) \<Rightarrow>
          (case resolve_conversation dr sessionId d of
             (Inl e, d0) \<Rightarrow> (respond_error e, d0, r, [])
           | (Inr conversationId, d0) \<Rightarrow> handle_turn dp dr conversationId message d0 r))"

section \<open>Concrete inputs\<close>

text \<open>
  A configuration the evaluated examples below share: no provider selected (so OpenAI), a
  plausible OpenAI key, and an OpenAI backend that answers every request with the same
  text, padded with blanks. The other two backends are never reached. The identity
  stands in for the hash; what depends on the hash is stated for any function \<open>H\<close> in
  its place.
\<close>

definition example_env :: process_env where
  "example_env =
     \<lparr>LLM_PROVIDER = None, OPENAI_API_KEY = Some ''sk-test'', GROQ_API_KEY = None,
      GEMINI_API_KEY = None\<rparr>"

text \<open>
  The format zod's \<^verbatim>\<open>uuid()\<close> accepts: hexadecimal digits in groups of 8, 4, 4, 4 and 12,
  with hyphens between.
\<close>

definition is_hex :: "char \<Rightarrow> bool" where
  "is_hex c = (c \<in> set ''0123456789abcdefABCDEF'')"

definition uuid_shape :: "string \<Rightarrow> bool" where
  "uuid_shape s =
     (map (\<lambda>c. if is_hex c then CHR ''h'' else if c = CHR ''-'' then CHR ''-'' else CHR ''?'') s =
      ''hhhhhhhh-hhhh-hhhh-hhhh-hhhhhhhhhhhh'')"

definition example_deps :: deps where
  "example_deps =
     \<lparr>env = example_env,
      zod_uuid = uuid_shape,
      sha256_hex = (\<lambda>s. s),
      openai_create = (\<lambda>request. Inr (Some '' Returns are accepted within 30 days. '')),
      groq_create = (\<lambda>request. Inr None),
      gemini_generateContent = (\<lambda>prompt. Inr [])\<rparr>"

text \<open>A store with one conversation and no message.\<close>

definition example_db :: db where
  "example_db =
     \<lparr>tbl_conversations = [\<lparr>c_id = ''c1'', c_createdAt = 1, c_updatedAt = 1\<rparr>],
      tbl_messages = []\<rparr>"

text \<open>A session identifier, and a store where it has one finished turn.\<close>

definition example_session :: string where
  "example_session = ''6f1e0c9a-3b7d-4c2e-9a51-0d8b7e4f2a10''"

definition example_db2 :: db where
  "example_db2 =
     \<lparr>tbl_conversations = [\<lparr>c_id = example_session, c_createdAt = 1, c_updatedAt = 2\<rparr>],
      tbl_messages =
        [\<lparr>m_id = ''m1'', m_conversationId = example_session, m_sender = User, m_text = ''Hi'',
           m_timestamp = 1\<rparr>,
         \<lparr>m_id = ''m2'', m_conversationId = example_session, m_sender = Ai,
           m_text = ''Hello!'', m_timestamp = 2\<rparr>]\<rparr>"


text \<open>
  The same configuration with Groq, and with Gemini, selected and given a plausible key.
  Their backends answer without usable text: no content from Groq, the empty text from
  Gemini. In \<open>example_blank_deps\<close> the OpenAI backend answers with blanks only.
\<close>

definition example_groq_deps :: deps where
  "example_groq_deps =
     example_deps\<lparr>env := example_env\<lparr>LLM_PROVIDER := Some ''groq'',
                                        GROQ_API_KEY := Some ''gsk_test''\<rparr>\<rparr>"

definition example_gemini_deps :: deps where
  "example_gemini_deps =
     example_deps\<lparr>env := example_env\<lparr>LLM_PROVIDER := Some ''gemini'',
                                        GEMINI_API_KEY := Some ''test-key''\<rparr>\<rparr>"

definition example_blank_deps :: deps where
  "example_blank_deps = example_deps\<lparr>openai_create := (\<lambda>request. Inr (Some ''   ''))\<rparr>"

text \<open>
  What the openai SDK, which the OpenAI and the Groq variant both use, rejects with when
  a request times out: its \<^verbatim>\<open>APIConnectionTimeoutError\<close>, with the message
  "Request timed out." and neither a status nor a code. In \<open>example_timeout_deps\<close> both
  backends reject every request with it.
\<close>

definition sdk_timeout :: js_error where
  "sdk_timeout =
     \<lparr>e_status = None, e_response_status = None, e_code = None,
      e_message = Some ''Request timed out.''\<rparr>"

definition example_timeout_deps :: deps where
  "example_timeout_deps =
     example_deps\<lparr>env := example_env\<lparr>GROQ_API_KEY := Some ''gsk_test''\<rparr>,
                  openai_create := (\<lambda>request. Inl sdk_timeout),
                  groq_create := (\<lambda>request. Inl sdk_timeout)\<rparr>"

text \<open>A history of twelve messages, six questions and their answers.\<close>

definition example_message :: "sender \<Rightarrow> string \<Rightarrow> int \<Rightarrow> message" where
  "example_message s t n =
     \<lparr>m_id = ''m-'' @ t, m_conversationId = ''c1'', m_sender = s, m_text = t,
      m_timestamp = n\<rparr>"

definition example_history :: "message list" where
  "example_history =
     [example_message User ''q1'' 1, example_message Ai ''a1'' 2,
      example_message User ''q2'' 3, example_message Ai ''a2'' 4,
      example_message User ''q3'' 5, example_message Ai ''a3'' 6,
      example_message User ''q4'' 7, example_message Ai ''a4'' 8,
      example_message User ''q5'' 9, example_message Ai ''a5'' 10,
      example_message User ''q6'' 11, example_message Ai ''a6'' 12]"


section \<open>Properties of the LLM service\<close>

subsection \<open>History truncation\<close>

lemma slice_from_neg: "0 < n \<Longrightarrow> slice_from (- n) xs = drop (length xs - nat n) xs"
  by (auto simp: slice_from_def Let_def max_def intro!: arg_cong2[where f=drop])

lemma recentHistory_drop: "recentHistory h = drop (length h - 10) h"
  by (simp add: recentHistory_def maxHistoryMessages_def slice_from_neg)

lemma calls_Groq:
  "snd (generateWithGroq d um h) =
     (if (\<exists>key. GROQ_API_KEY (env d) = Some key \<and> key \<noteq> [] \<and> trim key \<noteq> [] \<and>
                key \<noteq> ''your_groq_api_key_here'' \<and> startsWith key ''gsk_'')
      then [Chat_call Groq (groq_request um h)] else [])"
  by (auto simp: generateWithGroq_def Let_def split: option.splits)

lemma calls_OpenAI:
  "snd (generateWithOpenAI d um h) =
     (if (\<exists>key. OPENAI_API_KEY (env d) = Some key \<and> key \<noteq> [] \<and> trim key \<noteq> [] \<and>
                key \<noteq> ''your_openai_api_key_here'' \<and> startsWith key ''sk-'')
      then [Chat_call OpenAI (openai_request um h)] else [])"
  by (auto simp: generateWithOpenAI_def Let_def split: option.splits)

lemma calls_Gemini:
  "snd (generateWithGemini d um h) =
     (if (\<exists>key. GEMINI_API_KEY (env d) = Some key \<and> key \<noteq> [] \<and>
                key \<noteq> ''your_gemini_api_key_here'')
      then [Gemini_call (gemini_context um h)] else [])"
  by (auto simp: generateWithGemini_def Let_def split: option.splits)

lemma example_keys:
  "OPENAI_API_KEY (env example_deps) = Some ''sk-test''"
  "GROQ_API_KEY (env example_groq_deps) = Some ''gsk_test''"
  "GEMINI_API_KEY (env example_gemini_deps) = Some ''test-key''"
  "OPENAI_API_KEY (env example_blank_deps) = Some ''sk-test''"
  "OPENAI_API_KEY (env example_timeout_deps) = Some ''sk-test''"
  "GROQ_API_KEY (env example_timeout_deps) = Some ''gsk_test''"
  by (simp_all add: example_deps_def example_env_def example_groq_deps_def
      example_gemini_deps_def example_blank_deps_def example_timeout_deps_def)

lemma example_keys_pass:
  "trim ''sk-test'' \<noteq> []" "startsWith ''sk-test'' ''sk-''"
  "trim ''gsk_test'' \<noteq> []" "startsWith ''gsk_test'' ''gsk_''"
  by (simp_all add: trim_def is_ws_def startsWith_def)

lemma drop_example_history:
  "drop (length example_history - 10) example_history =
     [example_message User ''q2'' 3, example_message Ai ''a2'' 4,
      example_message User ''q3'' 5, example_message Ai ''a3'' 6,
      example_message User ''q4'' 7, example_message Ai ''a4'' 8,
      example_message User ''q5'' 9, example_message Ai ''a5'' 10,
      example_message User ''q6'' 11, example_message Ai ''a6'' 12]"
  by (simp add: example_history_def)

text \<open>
  Claim C8. Whatever history a provider variant is given, the request it sends to its
  backend (it sends one exactly when its credential passes the check) carries the last
  ten messages of that history and no others, in the history's own (oldest first) order,
  and the whole history when it has ten messages or fewer. For OpenAI and Groq each of
  them is one entry with its own text, as \<^verbatim>\<open>user\<close> or \<^verbatim>\<open>assistant\<close> by its sender, between
  the system instruction and the new user message; for Gemini each is one line
  "Customer: text" or "Agent: text" between the heading and the closing lines.
\<close>

theorem prompt_has_last_ten:
  "recentHistory h = drop (length h - 10) h
   \<and> suffix (recentHistory h) h
   \<and> length (recentHistory h) = min 10 (length h)
   \<and> (length h \<le> 10 \<longrightarrow> recentHistory h = h)
   \<and> snd (generateWithGroq d userMessage h) =
       (if (\<exists>key. GROQ_API_KEY (env d) = Some key \<and> key \<noteq> [] \<and> trim key \<noteq> [] \<and>
                  key \<noteq> ''your_groq_api_key_here'' \<and> startsWith key ''gsk_'')
        then [Chat_call Groq
                \<lparr>model = ''llama-3.1-8b-instant'',
                 messages =
                   [\<lparr>role = Role_system, content = STORE_KNOWLEDGE\<rparr>] @
                   map (\<lambda>m. \<lparr>role = (if m_sender m = User then Role_user else Role_assistant),
                             content = m_text m\<rparr>)
                       (drop (length h - 10) h) @
                   [\<lparr>role = Role_user, content = userMessage\<rparr>],
                 max_tokens = 200, temperature = 7 / 10\<rparr>]
        else [])
   \<and> snd (generateWithOpenAI d userMessage h) =
       (if (\<exists>key. OPENAI_API_KEY (env d) = Some key \<and> key \<noteq> [] \<and> trim key \<noteq> [] \<and>
                  key \<noteq> ''your_openai_api_key_here'' \<and> startsWith key ''sk-'')
        then [Chat_call OpenAI
                \<lparr>model = ''gpt-3.5-turbo'',
                 messages =
                   [\<lparr>role = Role_system, content = STORE_KNOWLEDGE\<rparr>] @
                   map (\<lambda>m. \<lparr>role = (if m_sender m = User then Role_user else Role_assistant),
                             content = m_text m\<rparr>)
                       (drop (length h - 10) h) @
                   [\<lparr>role = Role_user, content = userMessage\<rparr>],
                 max_tokens = 200, temperature = 7 / 10\<rparr>]
        else [])
   \<and> snd (generateWithGemini d userMessage h) =
       (if (\<exists>key. GEMINI_API_KEY (env d) = Some key \<and> key \<noteq> [] \<and>
                  key \<noteq> ''your_gemini_api_key_here'')
        then [Gemini_call
                (STORE_KNOWLEDGE @ ''\<newline>\<newline>Conversation History:\<newline>'' @
                 concat (map (\<lambda>m. (if m_sender m = User then ''Customer'' else ''Agent'') @
                                   '': '' @ m_text m @ ''\<newline>'')
                             (drop (length h - 10) h)) @
                 ''\<newline>Customer: '' @ userMessage @ ''\<newline>Agent:'')]
        else [])"
proof -
  have d: "recentHistory h = drop (length h - 10) h"
    by (rule recentHistory_drop)
  have s: "suffix (recentHistory h) h"
    unfolding d by (rule suffix_drop)
  have l: "length (recentHistory h) = min 10 (length h)"
    unfolding d by simp
  have a: "length h \<le> 10 \<longrightarrow> recentHistory h = h"
    unfolding d by simp
  have tp: "to_param = (\<lambda>m. \<lparr>role = (if m_sender m = User then Role_user else Role_assistant),
                             content = m_text m\<rparr>)"
    by (rule ext) (simp add: to_param_def)
  have gl: "gemini_line = (\<lambda>m. (if m_sender m = User then ''Customer'' else ''Agent'') @
                                   '': '' @ m_text m @ ''\<newline>'')"
    by (rule ext) (simp add: gemini_line_def)
  have g: "groq_request userMessage h =
             \<lparr>model = ''llama-3.1-8b-instant'',
                 messages =
                   [\<lparr>role = Role_system, content = STORE_KNOWLEDGE\<rparr>] @
                   map (\<lambda>m. \<lparr>role = (if m_sender m = User then Role_user else Role_assistant),
                             content = m_text m\<rparr>)
                       (drop (length h - 10) h) @
                   [\<lparr>role = Role_user, content = userMessage\<rparr>],
                 max_tokens = 200, temperature = 7 / 10\<rparr>"
    by (simp add: groq_request_def chat_messages_def d tp maxTokens_def)
  have o: "openai_request userMessage h =
             \<lparr>model = ''gpt-3.5-turbo'',
                 messages =
                   [\<lparr>role = Role_system, content = STORE_KNOWLEDGE\<rparr>] @
                   map (\<lambda>m. \<lparr>role = (if m_sender m = User then Role_user else Role_assistant),
                             content = m_text m\<rparr>)
                       (drop (length h - 10) h) @
                   [\<lparr>role = Role_user, content = userMessage\<rparr>],
                 max_tokens = 200, temperature = 7 / 10\<rparr>"
    by (simp add: openai_request_def chat_messages_def d tp maxTokens_def)
  have m: "gemini_context userMessage h =
             STORE_KNOWLEDGE @ ''\<newline>\<newline>Conversation History:\<newline>'' @
                 concat (map (\<lambda>m. (if m_sender m = User then ''Customer'' else ''Agent'') @
                                   '': '' @ m_text m @ ''\<newline>'')
                             (drop (length h - 10) h)) @
                 ''\<newline>Customer: '' @ userMessage @ ''\<newline>Agent:''"
    by (simp add: gemini_context_def d gl)
  show ?thesis
    unfolding calls_Groq calls_OpenAI calls_Gemini g o m
    using d s l a by blast
qed

theorem prompt_has_last_ten_witness:
  "length [example_message User ''q1'' 1, example_message Ai ''a1'' 2] \<le> 10
   \<and> recentHistory [example_message User ''q1'' 1, example_message Ai ''a1'' 2] =
       [example_message User ''q1'' 1, example_message Ai ''a1'' 2]
   \<and> length example_history = 12
   \<and> recentHistory example_history =
       [example_message User ''q2'' 3, example_message Ai ''a2'' 4,
        example_message User ''q3'' 5, example_message Ai ''a3'' 6,
        example_message User ''q4'' 7, example_message Ai ''a4'' 8,
        example_message User ''q5'' 9, example_message Ai ''a5'' 10,
        example_message User ''q6'' 11, example_message Ai ''a6'' 12]
   \<and> snd (generateWithOpenAI example_deps ''q7'' example_history) =
       [Chat_call OpenAI
          \<lparr>model = ''gpt-3.5-turbo'',
           messages =
             [\<lparr>role = Role_system, content = STORE_KNOWLEDGE\<rparr>,
              \<lparr>role = Role_user, content = ''q2''\<rparr>, \<lparr>role = Role_assistant, content = ''a2''\<rparr>,
              \<lparr>role = Role_user, content = ''q3''\<rparr>, \<lparr>role = Role_assistant, content = ''a3''\<rparr>,
              \<lparr>role = Role_user, content = ''q4''\<rparr>, \<lparr>role = Role_assistant, content = ''a4''\<rparr>,
              \<lparr>role = Role_user, content = ''q5''\<rparr>, \<lparr>role = Role_assistant, content = ''a5''\<rparr>,
              \<lparr>role = Role_user, content = ''q6''\<rparr>, \<lparr>role = Role_assistant, content = ''a6''\<rparr>,
              \<lparr>role = Role_user, content = ''q7''\<rparr>],
           max_tokens = 200, temperature = 7 / 10\<rparr>]
   \<and> snd (generateWithGroq example_groq_deps ''q7'' example_history) =
       [Chat_call Groq
          \<lparr>model = ''llama-3.1-8b-instant'',
           messages =
             [\<lparr>role = Role_system, content = STORE_KNOWLEDGE\<rparr>,
              \<lparr>role = Role_user, content = ''q2''\<rparr>, \<lparr>role = Role_assistant, content = ''a2''\<rparr>,
              \<lparr>role = Role_user, content = ''q3''\<rparr>, \<lparr>role = Role_assistant, content = ''a3''\<rparr>,
              \<lparr>role = Role_user, content = ''q4''\<rparr>, \<lparr>role = Role_assistant, content = ''a4''\<rparr>,
              \<lparr>role = Role_user, content = ''q5''\<rparr>, \<lparr>role = Role_assistant, content = ''a5''\<rparr>,
              \<lparr>role = Role_user, content = ''q6''\<rparr>, \<lparr>role = Role_assistant, content = ''a6''\<rparr>,
              \<lparr>role = Role_user, content = ''q7''\<rparr>],
           max_tokens = 200, temperature = 7 / 10\<rparr>]
   \<and> snd (generateWithGemini example_gemini_deps ''q7'' example_history) =
       [Gemini_call
          (STORE_KNOWLEDGE @
           ''\<newline>\<newline>Conversation History:\<newline>Customer: q2\<newline>Agent: a2\<newline>Customer: q3\<newline>Agent: a3\<newline>Customer: q4\<newline>Agent: a4\<newline>Customer: q5\<newline>Agent: a5\<newline>Customer: q6\<newline>Agent: a6\<newline>\<newline>Customer: q7\<newline>Agent:'')]"
proof -
  have short: "length [example_message User ''q1'' 1, example_message Ai ''a1'' 2] \<le> 10"
    by simp
  have len: "length example_history = 12"
    by (simp add: example_history_def)
  note two = prompt_has_last_ten
    [of "[example_message User ''q1'' 1, example_message Ai ''a1'' 2]" example_deps "''q7''"]
  note o = prompt_has_last_ten [of example_history example_deps "''q7''"]
  note g = prompt_has_last_ten [of example_history example_groq_deps "''q7''"]
  note m = prompt_has_last_ten [of example_history example_gemini_deps "''q7''"]
  have c1: "recentHistory [example_message User ''q1'' 1, example_message Ai ''a1'' 2] =
       [example_message User ''q1'' 1, example_message Ai ''a1'' 2]"
    using two short by blast
  have c2: "recentHistory example_history = drop (length example_history - 10) example_history"
    using o by blast
  have c3: "snd (generateWithOpenAI example_deps ''q7'' example_history) =
       [Chat_call OpenAI
          \<lparr>model = ''gpt-3.5-turbo'',
           messages =
             [\<lparr>role = Role_system, content = STORE_KNOWLEDGE\<rparr>,
              \<lparr>role = Role_user, content = ''q2''\<rparr>, \<lparr>role = Role_assistant, content = ''a2''\<rparr>,
              \<lparr>role = Role_user, content = ''q3''\<rparr>, \<lparr>role = Role_assistant, content = ''a3''\<rparr>,
              \<lparr>role = Role_user, content = ''q4''\<rparr>, \<lparr>role = Role_assistant, content = ''a4''\<rparr>,
              \<lparr>role = Role_user, content = ''q5''\<rparr>, \<lparr>role = Role_assistant, content = ''a5''\<rparr>,
              \<lparr>role = Role_user, content = ''q6''\<rparr>, \<lparr>role = Role_assistant, content = ''a6''\<rparr>,
              \<lparr>role = Role_user, content = ''q7''\<rparr>],
           max_tokens = 200, temperature = 7 / 10\<rparr>]"
    using o by (simp add: example_keys example_keys_pass drop_example_history example_message_def)
  have c4: "snd (generateWithGroq example_groq_deps ''q7'' example_history) =
       [Chat_call Groq
          \<lparr>model = ''llama-3.1-8b-instant'',
           messages =
             [\<lparr>role = Role_system, content = STORE_KNOWLEDGE\<rparr>,
              \<lparr>role = Role_user, content = ''q2''\<rparr>, \<lparr>role = Role_assistant, content = ''a2''\<rparr>,
              \<lparr>role = Role_user, content = ''q3''\<rparr>, \<lparr>role = Role_assistant, content = ''a3''\<rparr>,
              \<lparr>role = Role_user, content = ''q4''\<rparr>, \<lparr>role = Role_assistant, content = ''a4''\<rparr>,
              \<lparr>role = Role_user, content = ''q5''\<rparr>, \<lparr>role = Role_assistant, content = ''a5''\<rparr>,
              \<lparr>role = Role_user, content = ''q6''\<rparr>, \<lparr>role = Role_assistant, content = ''a6''\<rparr>,
              \<lparr>role = Role_user, content = ''q7''\<rparr>],
           max_tokens = 200, temperature = 7 / 10\<rparr>]"
    using g by (simp add: example_keys example_keys_pass drop_example_history example_message_def)
  have c5: "snd (generateWithGemini example_gemini_deps ''q7'' example_history) =
       [Gemini_call
          (STORE_KNOWLEDGE @
           ''\<newline>\<newline>Conversation History:\<newline>Customer: q2\<newline>Agent: a2\<newline>Customer: q3\<newline>Agent: a3\<newline>Customer: q4\<newline>Agent: a4\<newline>Customer: q5\<newline>Agent: a5\<newline>Customer: q6\<newline>Agent: a6\<newline>\<newline>Customer: q7\<newline>Agent:'')]"
    using m by (simp add: example_keys drop_example_history example_message_def)
  have c2': "recentHistory example_history =
       [example_message User ''q2'' 3, example_message Ai ''a2'' 4,
        example_message User ''q3'' 5, example_message Ai ''a3'' 6,
        example_message User ''q4'' 7, example_message Ai ''a4'' 8,
        example_message User ''q5'' 9, example_message Ai ''a5'' 10,
        example_message User ''q6'' 11, example_message Ai ''a6'' 12]"
    unfolding c2 by (rule drop_example_history)
  from short c1 len c2' c3 c4 c5 show ?thesis
    by blast
qed


subsection \<open>Error normalisation\<close>

lemma handleError_names_provider: "\<exists>msg. handleError e p = Error msg \<and> sublist p msg"
proof -
  have a: "sublist p (''Invalid '' @ p @ '' API key. Please check your API key.'')"
    by (rule sublist_appendI)
  have b: "sublist p ([] @ p @ '' rate limit exceeded. Please wait a moment and try again.'')"
    by (rule sublist_appendI)
  have c: "sublist p ([] @ p @ '' service temporarily unavailable. Please try again in a moment.'')"
    by (rule sublist_appendI)
  have d: "sublist p (''Request to '' @ p @ '' timed out. Please try again.'')"
    by (rule sublist_appendI)
  have f: "sublist p (''Failed to generate reply with '' @ p @ ('': '' @ x))" for x
    by (rule sublist_appendI)
  show ?thesis
    using a b c d f by (simp add: handleError_def Let_def)
qed

text \<open>
  What \<open>handleError\<close> does with the error it is given, for any provider name. The
  message of the error it throws is fixed by what it reads: status 401 (read from the
  error or from its response) gives the invalid-key message, 429 the rate-limit message,
  503 the unavailable message; with none of these statuses, what the code takes for a
  timeout (code ECONNABORTED, or a message containing "timeout") gives the timed-out
  message; anything else gives the residual message, which ends with the original
  message when there is one (and with "Unknown error" when it is missing or empty).
  Every one of the five messages contains the provider's name.
\<close>

theorem handleError_normalizes:
  "(error_status e = Some 401 \<longrightarrow>
      handleError e p = Error (''Invalid '' @ p @ '' API key. Please check your API key.''))
   \<and> (error_status e = Some 429 \<longrightarrow>
      handleError e p = Error (p @ '' rate limit exceeded. Please wait a moment and try again.''))
   \<and> (error_status e = Some 503 \<longrightarrow>
      handleError e p =
        Error (p @ '' service temporarily unavailable. Please try again in a moment.''))
   \<and> (error_status e \<notin> {Some 401, Some 429, Some 503} \<and> is_timeout e \<longrightarrow>
      handleError e p = Error (''Request to '' @ p @ '' timed out. Please try again.''))
   \<and> (error_status e \<notin> {Some 401, Some 429, Some 503} \<and> \<not> is_timeout e \<longrightarrow>
      handleError e p =
        Error (''Failed to generate reply with '' @ p @ '': '' @
               or_else (e_message e) ''Unknown error''))
   \<and> (\<forall>m. e_message e = Some m \<and> m \<noteq> [] \<longrightarrow> or_else (e_message e) ''Unknown error'' = m)
   \<and> (\<exists>msg. handleError e p = Error msg \<and> sublist p msg)"
proof -
  have carried:
    "\<forall>m. e_message e = Some m \<and> m \<noteq> [] \<longrightarrow> or_else (e_message e) ''Unknown error'' = m"
    by (simp add: or_else_def)
  have named: "\<exists>msg. handleError e p = Error msg \<and> sublist p msg"
    by (rule handleError_names_provider)
  have branches: "(error_status e = Some 401 \<longrightarrow>
      handleError e p = Error (''Invalid '' @ p @ '' API key. Please check your API key.''))
   \<and> (error_status e = Some 429 \<longrightarrow>
      handleError e p = Error (p @ '' rate limit exceeded. Please wait a moment and try again.''))
   \<and> (error_status e = Some 503 \<longrightarrow>
      handleError e p =
        Error (p @ '' service temporarily unavailable. Please try again in a moment.''))
   \<and> (error_status e \<notin> {Some 401, Some 429, Some 503} \<and> is_timeout e \<longrightarrow>
      handleError e p = Error (''Request to '' @ p @ '' timed out. Please try again.''))
   \<and> (error_status e \<notin> {Some 401, Some 429, Some 503} \<and> \<not> is_timeout e \<longrightarrow>
      handleError e p =
        Error (''Failed to generate reply with '' @ p @ '': '' @
               or_else (e_message e) ''Unknown error''))"
    by (simp add: handleError_def Let_def)
  from branches carried named show ?thesis by blast
qed

theorem handleError_normalizes_witness:
  "handleError \<lparr>e_status = Some 401, e_response_status = None, e_code = None,
                 e_message = Some ''Incorrect API key provided''\<rparr> ''OpenAI'' =
     Error ''Invalid OpenAI API key. Please check your API key.''
   \<and> handleError \<lparr>e_status = None, e_response_status = Some 429, e_code = None,
                   e_message = None\<rparr> ''Groq'' =
     Error ''Groq rate limit exceeded. Please wait a moment and try again.''
   \<and> handleError \<lparr>e_status = Some 503, e_response_status = None, e_code = None,
                   e_message = Some ''overloaded''\<rparr> ''Gemini'' =
     Error ''Gemini service temporarily unavailable. Please try again in a moment.''
   \<and> handleError \<lparr>e_status = None, e_response_status = None, e_code = Some ''ECONNABORTED'',
                   e_message = Some ''socket hang up''\<rparr> ''OpenAI'' =
     Error ''Request to OpenAI timed out. Please try again.''
   \<and> handleError \<lparr>e_status = None, e_response_status = Some 500, e_code = None,
                   e_message = Some ''boom''\<rparr> ''Groq'' =
     Error ''Failed to generate reply with Groq: boom''"
proof -
  have t: "is_timeout \<lparr>e_status = None, e_response_status = None,
             e_code = Some ''ECONNABORTED'', e_message = Some ''socket hang up''\<rparr>"
    by (simp add: is_timeout_def)
  have n: "\<not> is_timeout \<lparr>e_status = None, e_response_status = Some 500, e_code = None,
             e_message = Some ''boom''\<rparr>"
    by (simp add: is_timeout_def js_includes_def sublist_Cons_right)
  show ?thesis
    using t n
      handleError_normalizes [of "\<lparr>e_status = Some 401, e_response_status = None, e_code = None,
                 e_message = Some ''Incorrect API key provided''\<rparr>" "''OpenAI''"]
      handleError_normalizes [of "\<lparr>e_status = None, e_response_status = Some 429, e_code = None,
                   e_message = None\<rparr>" "''Groq''"]
      handleError_normalizes [of "\<lparr>e_status = Some 503, e_response_status = None, e_code = None,
                   e_message = Some ''overloaded''\<rparr>" "''Gemini''"]
      handleError_normalizes [of "\<lparr>e_status = None, e_response_status = None, e_code = Some ''ECONNABORTED'',
                   e_message = Some ''socket hang up''\<rparr>" "''OpenAI''"]
      handleError_normalizes [of "\<lparr>e_status = None, e_response_status = Some 500, e_code = None,
                   e_message = Some ''boom''\<rparr>" "''Groq''"]
    by (simp add: error_status_def or_else_def)
qed


subsection \<open>Generated replies\<close>









lemma getProvider_example: "getProvider example_env = OpenAI"
  by (simp add: getProvider_def example_env_def or_else_def toLowerCase_def trim_def is_ws_def)

lemma trim_example: "trim '' Returns are accepted within 30 days. '' = ''Returns are accepted within 30 days.''"
  by (simp add: trim_def is_ws_def)

lemma generateWithOpenAI_example:
  "generateWithOpenAI (example_deps\<lparr>sha256_hex := H\<rparr>) um h =
     (Inr ''Returns are accepted within 30 days.'', [Chat_call OpenAI (openai_request um h)])"
  by (simp add: generateWithOpenAI_def example_deps_def example_env_def startsWith_def
      trim_example Let_def) (simp add: trim_def is_ws_def)

lemma env_example: "env (example_deps\<lparr>sha256_hex := H\<rparr>) = example_env"
  by (simp add: example_deps_def)

lemma generateReply_example:
  "h \<noteq> [] \<or> r = None \<Longrightarrow> generateReply (example_deps\<lparr>sha256_hex := H\<rparr>) r um h =
     (Inr ''Returns are accepted within 30 days.'', r, [Chat_call OpenAI (openai_request um h)])"
  by (auto simp: generateReply_def generateWithOpenAI_example cache_get_def cache_set_def
      truthy_def env_example getProvider_example)

subsection \<open>Failures inside a variant\<close>

text \<open>
  A variant that has called its backend (its credential passed the check) hands a
  rejected call to \<open>handleError\<close> under its own name, and an answer without usable text
  becomes the residual error about an empty response.
\<close>

lemma variants_normalize_backend_failure:
  "groq_create d (groq_request um h) = Inl e \<Longrightarrow> snd (generateWithGroq d um h) \<noteq> [] \<Longrightarrow>
     fst (generateWithGroq d um h) = Inl (handleError e ''Groq'')"
  "openai_create d (openai_request um h) = Inl e \<Longrightarrow> snd (generateWithOpenAI d um h) \<noteq> [] \<Longrightarrow>
     fst (generateWithOpenAI d um h) = Inl (handleError e ''OpenAI'')"
  "gemini_generateContent d (gemini_context um h) = Inl e \<Longrightarrow>
     snd (generateWithGemini d um h) \<noteq> [] \<Longrightarrow>
     fst (generateWithGemini d um h) = Inl (handleError e ''Gemini'')"
  by (auto simp: generateWithGroq_def generateWithOpenAI_def generateWithGemini_def Let_def
      split: option.splits if_splits)




subsection \<open>Trimmed replies and empty answers\<close>

lemma example_backends:
  "openai_create example_deps = (\<lambda>request. Inr (Some '' Returns are accepted within 30 days. ''))"
  "groq_create example_groq_deps = (\<lambda>request. Inr None)"
  "gemini_generateContent example_gemini_deps = (\<lambda>prompt. Inr [])"
  "openai_create example_blank_deps = (\<lambda>request. Inr (Some ''   ''))"
  "openai_create example_timeout_deps = (\<lambda>request. Inl sdk_timeout)"
  "groq_create example_timeout_deps = (\<lambda>request. Inl sdk_timeout)"
  by (simp_all add: example_deps_def example_groq_deps_def example_gemini_deps_def
      example_blank_deps_def example_timeout_deps_def)





subsection \<open>Timeouts of the SDK\<close>

lemma sdk_timeout_not_recognised: "\<not> is_timeout sdk_timeout"
  by (simp add: is_timeout_def sdk_timeout_def js_includes_def sublist_Cons_right)

lemma handleError_sdk_timeout:
  "handleError sdk_timeout p = Error (''Failed to generate reply with '' @ p @ '': Request timed out.'')"
  using sdk_timeout_not_recognised
  by (simp add: handleError_def error_status_def) (simp add: sdk_timeout_def or_else_def)

lemma getProvider_timeout_example: "getProvider (env example_timeout_deps) = OpenAI"
  by (simp add: example_timeout_deps_def getProvider_def example_env_def or_else_def
      toLowerCase_def trim_def is_ws_def)

lemma generateWithOpenAI_timeout:
  "generateWithOpenAI example_timeout_deps um h =
     (Inl (Error ''Failed to generate reply with OpenAI: Request timed out.''),
      [Chat_call OpenAI (openai_request um h)])"
  by (simp add: generateWithOpenAI_def example_keys example_keys_pass example_backends
      handleError_sdk_timeout Let_def)

lemma generateWithGroq_timeout:
  "generateWithGroq example_timeout_deps um h =
     (Inl (Error ''Failed to generate reply with Groq: Request timed out.''),
      [Chat_call Groq (groq_request um h)])"
  by (simp add: generateWithGroq_def example_keys example_keys_pass example_backends
      handleError_sdk_timeout Let_def)

text \<open>
  Claim C6, against the code. \<open>handleError\<close> takes a failure for a timeout only when its
  code is ECONNABORTED or its message contains "timeout". The error with which the
  openai SDK rejects a request that timed out has the message "Request timed out." and
  no code, so it is not recognised: the OpenAI and the Groq variant throw the residual
  error, "Failed to generate reply with ...: Request timed out.", and not the timeout
  error. The other kinds of the claim hold: \<open>handleError_normalizes\<close> gives the messages
  for status 401, 429 and 503 and the residual one, \<open>handleError_names_provider\<close> the
  provider's name in each, and \<open>variants_normalize_backend_failure\<close> says that each variant
  passes its backend's failure to \<open>handleError\<close> under its own name.
\<close>

theorem sdk_timeout_gets_residual_error:
  "generateWithOpenAI example_timeout_deps userMessage h =
     (Inl (Error ''Failed to generate reply with OpenAI: Request timed out.''),
      [Chat_call OpenAI (openai_request userMessage h)])
   \<and> generateWithGroq example_timeout_deps userMessage h =
     (Inl (Error ''Failed to generate reply with Groq: Request timed out.''),
      [Chat_call Groq (groq_request userMessage h)])
   \<and> generateReply example_timeout_deps None userMessage h =
     (Inl (Error ''Failed to generate reply with OpenAI: Request timed out.''), None,
      [Chat_call OpenAI (openai_request userMessage h)])
   \<and> handleError sdk_timeout ''OpenAI'' \<noteq> Error ''Request to OpenAI timed out. Please try again.''
   \<and> handleError sdk_timeout ''Groq'' \<noteq> Error ''Request to Groq timed out. Please try again.''"
proof -
  have r: "generateReply example_timeout_deps None userMessage h =
     (Inl (Error ''Failed to generate reply with OpenAI: Request timed out.''), None,
      [Chat_call OpenAI (openai_request userMessage h)])"
    by (simp add: generateReply_def getProvider_timeout_example generateWithOpenAI_timeout
        cache_get_def truthy_def)
  from r show ?thesis
    by (simp add: handleError_sdk_timeout generateWithOpenAI_timeout generateWithGroq_timeout)
qed


section \<open>Properties of the store\<close>

lemma getConversation_None: "getConversation d cid = None \<longleftrightarrow> cid \<notin> c_id ` set (tbl_conversations d)"
  by (auto simp: getConversation_def find_None_iff)

lemma getConversation_Some: "getConversation d cid = Some c \<Longrightarrow> c \<in> set (tbl_conversations d) \<and> c_id c = cid"
  by (auto simp: getConversation_def find_Some_iff)

lemma addMessage_NotFound:
  "getConversation d cid = None \<Longrightarrow>
   addMessage d uuid now_ms cid s t = (Inl (Error ''Conversation not found''), d)"
  by (simp add: addMessage_def addMessage_steps_def)

lemma addMessage_steps_ok:
  assumes "getConversation d cid = Some c" and "uuid \<notin> m_id ` set (tbl_messages d)"
  shows "addMessage_steps d uuid now_ms cid s t =
     (Inr \<lparr>m_id = uuid, m_conversationId = cid, m_sender = s, m_text = t, m_timestamp = now_ms div 1000\<rparr>,
      [d\<lparr>tbl_messages := tbl_messages d @ [\<lparr>m_id = uuid, m_conversationId = cid, m_sender = s, m_text = t, m_timestamp = now_ms div 1000\<rparr>]\<rparr>,
       update_conversation (d\<lparr>tbl_messages := tbl_messages d @ [\<lparr>m_id = uuid, m_conversationId = cid, m_sender = s, m_text = t, m_timestamp = now_ms div 1000\<rparr>]\<rparr>) (now_ms div 1000) cid])"
proof -
  from assms(1) have "cid \<in> c_id ` set (tbl_conversations d)"
    using getConversation_Some by force
  with assms show ?thesis
    by (simp add: addMessage_steps_def insert_message_def Let_def)
qed

lemma addMessage_ok:
  assumes "getConversation d cid = Some c" and "uuid \<notin> m_id ` set (tbl_messages d)"
  shows "addMessage d uuid now_ms cid s t =
     (Inr \<lparr>m_id = uuid, m_conversationId = cid, m_sender = s, m_text = t, m_timestamp = now_ms div 1000\<rparr>,
      \<lparr>tbl_conversations = map (\<lambda>c. if c_id c = cid then c\<lparr>c_updatedAt := now_ms div 1000\<rparr> else c) (tbl_conversations d),
       tbl_messages = tbl_messages d @ [\<lparr>m_id = uuid, m_conversationId = cid, m_sender = s, m_text = t, m_timestamp = now_ms div 1000\<rparr>]\<rparr>)"
  by (simp add: addMessage_def addMessage_steps_ok [OF assms] update_conversation_def)

lemma addMessage_cases:
  "addMessage d uuid now_ms cid s t = (res, d') \<Longrightarrow>
   (d' = d \<and> (\<exists>e. res = Inl e)) \<or>
   (\<exists>c. getConversation d cid = Some c \<and> uuid \<notin> m_id ` set (tbl_messages d))"
  by (auto simp: addMessage_def addMessage_steps_def insert_message_def Let_def
      split: option.splits if_splits)

lemma find_touch:
  "find (\<lambda>c. c_id c = cid') (map (\<lambda>c. if c_id c = cid then c\<lparr>c_updatedAt := ts\<rparr> else c) cs) =
   map_option (\<lambda>c. if c_id c = cid then c\<lparr>c_updatedAt := ts\<rparr> else c)
     (find (\<lambda>c. c_id c = cid') cs)"
  by (induction cs) auto

lemma getConversation_update:
  "getConversation (update_conversation d ts cid) cid' =
   map_option (\<lambda>c. if c_id c = cid then c\<lparr>c_updatedAt := ts\<rparr> else c) (getConversation d cid')"
  by (simp add: getConversation_def update_conversation_def find_touch)

lemma getConversation_update_other:
  "cid' \<noteq> cid \<Longrightarrow> getConversation (update_conversation d ts cid) cid' = getConversation d cid'"
proof (cases "getConversation d cid'")
  case None
  then show ?thesis by (simp add: getConversation_update)
next
  case (Some c)
  assume "cid' \<noteq> cid"
  with Some getConversation_Some [OF Some] show ?thesis
    by (simp add: getConversation_update)
qed

lemma getConversation_messages_irrelevant:
  "getConversation (d\<lparr>tbl_messages := ms\<rparr>) cid = getConversation d cid"
  by (simp add: getConversation_def)

lemma addMessage_found:
  assumes c: "getConversation d cid = Some c" and f: "uuid \<notin> m_id ` set (tbl_messages d)"
  shows "let msg = \<lparr>m_id = uuid, m_conversationId = cid, m_sender = s, m_text = t,
                     m_timestamp = now_ms div 1000\<rparr>;
             d1 = d\<lparr>tbl_messages := tbl_messages d @ [msg]\<rparr>;
             d2 = update_conversation d1 (m_timestamp msg) cid
         in addMessage_steps d uuid now_ms cid s t = (Inr msg, [d1, d2])
            \<and> addMessage d uuid now_ms cid s t = (Inr msg, d2)
            \<and> tbl_messages d2 = tbl_messages d @ [msg]
            \<and> getConversation d2 cid = Some (c\<lparr>c_updatedAt := m_timestamp msg\<rparr>)
            \<and> (\<forall>cid'. cid' \<noteq> cid \<longrightarrow> getConversation d2 cid' = getConversation d cid')
            \<and> getConversation d1 cid = Some c"
proof -
  define msg where "msg = \<lparr>m_id = uuid, m_conversationId = cid, m_sender = s, m_text = t,
                     m_timestamp = now_ms div 1000\<rparr>"
  define d1 where "d1 = d\<lparr>tbl_messages := tbl_messages d @ [msg]\<rparr>"
  define d2 where "d2 = update_conversation d1 (m_timestamp msg) cid"
  from getConversation_Some [OF c] have ci: "c_id c = cid" by simp
  have st: "addMessage_steps d uuid now_ms cid s t = (Inr msg, [d1, d2])"
    by (simp add: addMessage_steps_ok [OF c f] msg_def d1_def d2_def)
  then have ad: "addMessage d uuid now_ms cid s t = (Inr msg, d2)"
    by (simp add: addMessage_def)
  have ms: "tbl_messages d2 = tbl_messages d @ [msg]"
    by (simp add: d2_def d1_def update_conversation_def)
  have g1: "getConversation d1 cid' = getConversation d cid'" for cid'
    by (simp add: d1_def getConversation_messages_irrelevant)
  have g2: "getConversation d2 cid = Some (c\<lparr>c_updatedAt := m_timestamp msg\<rparr>)"
    by (simp add: d2_def getConversation_update g1 c ci)
  have g3: "\<forall>cid'. cid' \<noteq> cid \<longrightarrow> getConversation d2 cid' = getConversation d cid'"
    by (simp add: d2_def getConversation_update_other g1)
  from st ad ms g2 g3 g1 [of cid] c show ?thesis
    unfolding Let_def msg_def [symmetric] d1_def [symmetric] d2_def [symmetric] by simp
qed

text \<open>
  Claim C5, as amended. \<open>addMessage\<close> on a conversation that does not exist throws
  "Conversation not found", writes nothing and leaves the database as it was. On a
  conversation that exists (and with a message id not yet stored) it returns the message,
  whose timestamp is the clock reading in whole seconds, and commits two writes in turn:
  first the message row (state \<open>d1\<close>), then the conversation's updated-timestamp set to the
  message's timestamp (state \<open>d2\<close>), no other conversation changing. After the call both
  writes are there; in the committed state between them the message is stored and the
  conversation still carries its old updated-timestamp.
\<close>

theorem addMessage_contract:
  "(getConversation d cid = None \<longrightarrow>
      addMessage d uuid now_ms cid s t = (Inl (Error ''Conversation not found''), d)
      \<and> snd (addMessage_steps d uuid now_ms cid s t) = [])
   \<and> (\<forall>c. getConversation d cid = Some c \<and> uuid \<notin> m_id ` set (tbl_messages d) \<longrightarrow>
        (let msg = \<lparr>m_id = uuid, m_conversationId = cid, m_sender = s, m_text = t,
                     m_timestamp = now_ms div 1000\<rparr>;
             d1 = d\<lparr>tbl_messages := tbl_messages d @ [msg]\<rparr>;
             d2 = update_conversation d1 (m_timestamp msg) cid
         in addMessage_steps d uuid now_ms cid s t = (Inr msg, [d1, d2])
            \<and> addMessage d uuid now_ms cid s t = (Inr msg, d2)
            \<and> tbl_messages d2 = tbl_messages d @ [msg]
            \<and> getConversation d2 cid = Some (c\<lparr>c_updatedAt := m_timestamp msg\<rparr>)
            \<and> (\<forall>cid'. cid' \<noteq> cid \<longrightarrow> getConversation d2 cid' = getConversation d cid')
            \<and> getConversation d1 cid = Some c))"
proof (intro conjI impI allI)
  assume "getConversation d cid = None"
  then show "addMessage d uuid now_ms cid s t = (Inl (Error ''Conversation not found''), d)"
    by (rule addMessage_NotFound)
next
  assume "getConversation d cid = None"
  then show "snd (addMessage_steps d uuid now_ms cid s t) = []"
    by (simp add: addMessage_steps_def)
next
  fix c
  assume "getConversation d cid = Some c \<and> uuid \<notin> m_id ` set (tbl_messages d)"
  then have c: "getConversation d cid = Some c" and f: "uuid \<notin> m_id ` set (tbl_messages d)"
    by auto
  show "let msg = \<lparr>m_id = uuid, m_conversationId = cid, m_sender = s, m_text = t,
                     m_timestamp = now_ms div 1000\<rparr>;
             d1 = d\<lparr>tbl_messages := tbl_messages d @ [msg]\<rparr>;
             d2 = update_conversation d1 (m_timestamp msg) cid
         in addMessage_steps d uuid now_ms cid s t = (Inr msg, [d1, d2])
            \<and> addMessage d uuid now_ms cid s t = (Inr msg, d2)
            \<and> tbl_messages d2 = tbl_messages d @ [msg]
            \<and> getConversation d2 cid = Some (c\<lparr>c_updatedAt := m_timestamp msg\<rparr>)
            \<and> (\<forall>cid'. cid' \<noteq> cid \<longrightarrow> getConversation d2 cid' = getConversation d cid')
            \<and> getConversation d1 cid = Some c"
    by (rule addMessage_found [OF c f])
qed

theorem addMessage_contract_witness:
  "getConversation example_db ''c9'' = None
   \<and> addMessage example_db ''m1'' 5000 ''c9'' User ''Hi'' =
       (Inl (Error ''Conversation not found''), example_db)
   \<and> getConversation example_db ''c1'' = Some \<lparr>c_id = ''c1'', c_createdAt = 1, c_updatedAt = 1\<rparr>
   \<and> ''m1'' \<notin> m_id ` set (tbl_messages example_db)
   \<and> addMessage example_db ''m1'' 5000 ''c1'' User ''Hi'' =
       (Inr \<lparr>m_id = ''m1'', m_conversationId = ''c1'', m_sender = User, m_text = ''Hi'',
              m_timestamp = 5\<rparr>,
        \<lparr>tbl_conversations = [\<lparr>c_id = ''c1'', c_createdAt = 1, c_updatedAt = 5\<rparr>],
         tbl_messages = [\<lparr>m_id = ''m1'', m_conversationId = ''c1'', m_sender = User,
                          m_text = ''Hi'', m_timestamp = 5\<rparr>]\<rparr>)"
proof -
  have n: "getConversation example_db ''c9'' = None"
    by (simp add: getConversation_def example_db_def)
  have c: "getConversation example_db ''c1'' = Some \<lparr>c_id = ''c1'', c_createdAt = 1, c_updatedAt = 1\<rparr>"
    by (simp add: getConversation_def example_db_def)
  have f: "''m1'' \<notin> m_id ` set (tbl_messages example_db)"
    by (simp add: example_db_def)
  have u: "update_conversation (example_db\<lparr>tbl_messages := tbl_messages example_db @ [\<lparr>m_id = ''m1'', m_conversationId = ''c1'', m_sender = User, m_text = ''Hi'',
              m_timestamp = 5\<rparr>]\<rparr>) 5 ''c1'' = \<lparr>tbl_conversations = [\<lparr>c_id = ''c1'', c_createdAt = 1, c_updatedAt = 5\<rparr>],
         tbl_messages = [\<lparr>m_id = ''m1'', m_conversationId = ''c1'', m_sender = User,
                          m_text = ''Hi'', m_timestamp = 5\<rparr>]\<rparr>"
    by (simp add: update_conversation_def example_db_def)
  show ?thesis
    using n c f u
      addMessage_contract [of example_db "''c9''" "''m1''" 5000 User "''Hi''"]
      addMessage_contract [of example_db "''c1''" "''m1''" 5000 User "''Hi''"]
    by (simp add: Let_def)
qed

text \<open>
  The two writes are not atomic: on \<open>example_db\<close> the first committed state shows the new
  message (timestamp 5) to a reader while the conversation's updated-timestamp is still 1.
\<close>

theorem addMessage_writes_not_atomic_counterexample:
  "addMessage_steps example_db ''m1'' 5000 ''c1'' User ''Hi'' =
     (Inr \<lparr>m_id = ''m1'', m_conversationId = ''c1'', m_sender = User, m_text = ''Hi'',
            m_timestamp = 5\<rparr>,
      [\<lparr>tbl_conversations = [\<lparr>c_id = ''c1'', c_createdAt = 1, c_updatedAt = 1\<rparr>],
        tbl_messages = [\<lparr>m_id = ''m1'', m_conversationId = ''c1'', m_sender = User,
                         m_text = ''Hi'', m_timestamp = 5\<rparr>]\<rparr>,
       \<lparr>tbl_conversations = [\<lparr>c_id = ''c1'', c_createdAt = 1, c_updatedAt = 5\<rparr>],
        tbl_messages = [\<lparr>m_id = ''m1'', m_conversationId = ''c1'', m_sender = User,
                         m_text = ''Hi'', m_timestamp = 5\<rparr>]\<rparr>])
   \<and> getMessages
        \<lparr>tbl_conversations = [\<lparr>c_id = ''c1'', c_createdAt = 1, c_updatedAt = 1\<rparr>],
         tbl_messages = [\<lparr>m_id = ''m1'', m_conversationId = ''c1'', m_sender = User,
                          m_text = ''Hi'', m_timestamp = 5\<rparr>]\<rparr> ''c1'' =
       [\<lparr>m_id = ''m1'', m_conversationId = ''c1'', m_sender = User, m_text = ''Hi'',
          m_timestamp = 5\<rparr>]
   \<and> getConversation
        \<lparr>tbl_conversations = [\<lparr>c_id = ''c1'', c_createdAt = 1, c_updatedAt = 1\<rparr>],
         tbl_messages = [\<lparr>m_id = ''m1'', m_conversationId = ''c1'', m_sender = User,
                          m_text = ''Hi'', m_timestamp = 5\<rparr>]\<rparr> ''c1'' =
       Some \<lparr>c_id = ''c1'', c_createdAt = 1, c_updatedAt = 1\<rparr>"
  by (simp add: addMessage_steps_def example_db_def getConversation_def insert_message_def
      update_conversation_def getMessages_def Let_def)


subsection \<open>Timestamps\<close>

lemma createConversation_cases:
  "createConversation d uuid now_ms =
     (if uuid \<in> c_id ` set (tbl_conversations d)
      then (Inl (SqliteError ''UNIQUE constraint failed: conversations.id''), d)
      else (Inr uuid,
            d\<lparr>tbl_conversations := tbl_conversations d @
               [\<lparr>c_id = uuid, c_createdAt = now_ms div 1000, c_updatedAt = now_ms div 1000\<rparr>]\<rparr>))"
  by (simp add: createConversation_def insert_conversation_def Let_def)

lemma not_after_mono: "not_after d t \<Longrightarrow> t \<le> t' \<Longrightarrow> not_after d t'"
proof -
  assume a: "not_after d t" and le: "t \<le> t'"
  from le have "t div 1000 \<le> t' div 1000" by (simp add: zdiv_mono1)
  with a show ?thesis unfolding not_after_def by fastforce
qed

lemma create_keeps_timestamps_ok:
  assumes "timestamps_ok d" and "not_after d t" and "t \<le> now_ms"
  shows "timestamps_ok (snd (createConversation d uuid now_ms))
         \<and> not_after (snd (createConversation d uuid now_ms)) now_ms"
proof (cases "uuid \<in> c_id ` set (tbl_conversations d)")
  case True
  with assms show ?thesis
    by (simp add: createConversation_cases not_after_mono)
next
  case False
  from assms(2,3) have na: "not_after d now_ms" by (rule not_after_mono)
  from False have eq: "snd (createConversation d uuid now_ms) =
      d\<lparr>tbl_conversations := tbl_conversations d @
         [\<lparr>c_id = uuid, c_createdAt = now_ms div 1000, c_updatedAt = now_ms div 1000\<rparr>]\<rparr>"
    by (simp add: createConversation_cases)
  have "timestamps_ok (d\<lparr>tbl_conversations := tbl_conversations d @
         [\<lparr>c_id = uuid, c_createdAt = now_ms div 1000, c_updatedAt = now_ms div 1000\<rparr>]\<rparr>)"
    using assms(1) na unfolding timestamps_ok_def not_after_def by auto
  moreover have "not_after (d\<lparr>tbl_conversations := tbl_conversations d @
         [\<lparr>c_id = uuid, c_createdAt = now_ms div 1000, c_updatedAt = now_ms div 1000\<rparr>]\<rparr>) now_ms"
    using na unfolding not_after_def by auto
  ultimately show ?thesis unfolding eq by simp
qed

lemma append_keeps_timestamps_ok:
  assumes "timestamps_ok d" and "not_after d t" and "t \<le> now_ms"
  shows "timestamps_ok (snd (addMessage d uuid now_ms cid s tx))
         \<and> not_after (snd (addMessage d uuid now_ms cid s tx)) now_ms"
proof -
  from assms(2,3) have na: "not_after d now_ms" by (rule not_after_mono)
  obtain res d' where r: "addMessage d uuid now_ms cid s tx = (res, d')"
    by (cases "addMessage d uuid now_ms cid s tx")
  from addMessage_cases [OF r] show ?thesis
  proof
    assume "d' = d \<and> (\<exists>e. res = Inl e)"
    with r assms(1) na show ?thesis by simp
  next
    assume "\<exists>c. getConversation d cid = Some c \<and> uuid \<notin> m_id ` set (tbl_messages d)"
    then obtain c where c: "getConversation d cid = Some c"
      and f: "uuid \<notin> m_id ` set (tbl_messages d)" by blast
    have t: "timestamps_ok
       \<lparr>tbl_conversations = map (\<lambda>c. if c_id c = cid then c\<lparr>c_updatedAt := now_ms div 1000\<rparr> else c) (tbl_conversations d),
        tbl_messages = tbl_messages d @ [\<lparr>m_id = uuid, m_conversationId = cid, m_sender = s, m_text = tx, m_timestamp = now_ms div 1000\<rparr>]\<rparr>"
      using assms(1) na unfolding timestamps_ok_def not_after_def by fastforce
    have n: "not_after
       \<lparr>tbl_conversations = map (\<lambda>c. if c_id c = cid then c\<lparr>c_updatedAt := now_ms div 1000\<rparr> else c) (tbl_conversations d),
        tbl_messages = tbl_messages d @ [\<lparr>m_id = uuid, m_conversationId = cid, m_sender = s, m_text = tx, m_timestamp = now_ms div 1000\<rparr>]\<rparr> now_ms"
      using na unfolding not_after_def by auto
    from t n show ?thesis by (simp add: addMessage_ok [OF c f])
  qed
qed

lemma run_op_keeps_timestamps_ok:
  assumes "timestamps_ok d" and "not_after d t" and "t \<le> op_now op"
  shows "timestamps_ok (run_op d op) \<and> not_after (run_op d op) (op_now op)"
proof (cases op)
  case (Create_conversation uuid now_ms)
  with assms create_keeps_timestamps_ok [of d t now_ms uuid] show ?thesis by simp
next
  case (Append_message uuid now_ms cid s tx)
  with assms append_keeps_timestamps_ok [of d t now_ms uuid cid s tx] show ?thesis by simp
qed

lemma run_ops_keeps_timestamps_ok:
  "timestamps_ok d \<Longrightarrow> not_after d t \<Longrightarrow> sorted (t # map op_now ops) \<Longrightarrow>
   timestamps_ok (run_ops d ops)"
proof (induction ops arbitrary: d t)
  case Nil
  then show ?case by (simp add: run_ops_def)
next
  case (Cons op ops)
  from Cons.prems have le: "t \<le> op_now op" by simp
  from run_op_keeps_timestamps_ok [OF Cons.prems(1,2) le]
  have a: "timestamps_ok (run_op d op)" and b: "not_after (run_op d op) (op_now op)" by auto
  from Cons.prems(3) have s: "sorted (op_now op # map op_now ops)" by simp
  from Cons.IH [OF a b s] show ?case by (simp add: run_ops_def)
qed

text \<open>
  Claim C7, as amended. After any sequence of \<open>createConversation\<close> and \<open>addMessage\<close>
  calls on the empty store whose clock readings never decrease from one call to the
  next, every conversation's updated-timestamp is at least its created-timestamp and at
  least the timestamp of each of its messages, the newest included.
\<close>

theorem timestamps_ok_under_monotone_clock:
  assumes "sorted (map op_now ops)"
  shows "timestamps_ok (run_ops empty_db ops)"
proof (cases ops)
  case Nil
  then show ?thesis by (simp add: run_ops_def timestamps_ok_def empty_db_def)
next
  case (Cons op rest)
  have a: "timestamps_ok empty_db" by (simp add: timestamps_ok_def empty_db_def)
  have b: "not_after empty_db (op_now op)" by (simp add: not_after_def empty_db_def)
  from assms Cons have "sorted (op_now op # map op_now ops)" by simp
  from run_ops_keeps_timestamps_ok [OF a b this] show ?thesis .
qed

lemma run_ops_example:
  "run_ops empty_db
      [Create_conversation ''c1'' 2000, Append_message ''m1'' 1999 ''c1'' User ''Hi''] =
   \<lparr>tbl_conversations = [\<lparr>c_id = ''c1'', c_createdAt = 2, c_updatedAt = 1\<rparr>],
    tbl_messages = [\<lparr>m_id = ''m1'', m_conversationId = ''c1'', m_sender = User, m_text = ''Hi'', m_timestamp = 1\<rparr>]\<rparr>"
  by (simp add: run_ops_def empty_db_def createConversation_cases addMessage_def
      addMessage_steps_def getConversation_def insert_message_def update_conversation_def Let_def)

text \<open>
  Without that condition the invariant fails: \<open>addMessage\<close> stores its own clock reading
  whatever the row holds, so a clock that steps back by one millisecond across a second
  boundary leaves a conversation updated (1) before it was created (2).
\<close>

theorem updated_before_created_counterexample:
  "getConversation
     (run_ops empty_db
        [Create_conversation ''c1'' 2000, Append_message ''m1'' 1999 ''c1'' User ''Hi''])
     ''c1'' = Some \<lparr>c_id = ''c1'', c_createdAt = 2, c_updatedAt = 1\<rparr>
   \<and> \<not> timestamps_ok
       (run_ops empty_db
          [Create_conversation ''c1'' 2000, Append_message ''m1'' 1999 ''c1'' User ''Hi''])"
  unfolding run_ops_example by (simp add: getConversation_def timestamps_ok_def)

lemma run_ops_example2:
  "run_ops empty_db
      [Create_conversation ''c1'' 2000, Append_message ''m1'' 2500 ''c1'' User ''Hi'',
       Append_message ''m2'' 4100 ''c1'' Ai ''Hello!''] =
   \<lparr>tbl_conversations = [\<lparr>c_id = ''c1'', c_createdAt = 2, c_updatedAt = 4\<rparr>],
    tbl_messages = [\<lparr>m_id = ''m1'', m_conversationId = ''c1'', m_sender = User, m_text = ''Hi'', m_timestamp = 2\<rparr>,
                    \<lparr>m_id = ''m2'', m_conversationId = ''c1'', m_sender = Ai, m_text = ''Hello!'', m_timestamp = 4\<rparr>]\<rparr>"
  by (simp add: run_ops_def empty_db_def createConversation_cases addMessage_def
      addMessage_steps_def getConversation_def insert_message_def update_conversation_def Let_def)

theorem timestamps_ok_under_monotone_clock_witness:
  "sorted (map op_now
      [Create_conversation ''c1'' 2000, Append_message ''m1'' 2500 ''c1'' User ''Hi'',
       Append_message ''m2'' 4100 ''c1'' Ai ''Hello!''])
   \<and> timestamps_ok
       \<lparr>tbl_conversations = [\<lparr>c_id = ''c1'', c_createdAt = 2, c_updatedAt = 4\<rparr>],
        tbl_messages = [\<lparr>m_id = ''m1'', m_conversationId = ''c1'', m_sender = User, m_text = ''Hi'', m_timestamp = 2\<rparr>,
                    \<lparr>m_id = ''m2'', m_conversationId = ''c1'', m_sender = Ai, m_text = ''Hello!'', m_timestamp = 4\<rparr>]\<rparr>"
proof -
  have s: "sorted (map op_now
      [Create_conversation ''c1'' 2000, Append_message ''m1'' 2500 ''c1'' User ''Hi'',
       Append_message ''m2'' 4100 ''c1'' Ai ''Hello!''])" by simp
  from timestamps_ok_under_monotone_clock [OF s] s show ?thesis
    unfolding run_ops_example2 by simp
qed


subsection \<open>Unknown conversations\<close>

lemma ids_after_touch:
  "c_id ` set (map (\<lambda>c. if c_id c = cid then c\<lparr>c_updatedAt := ts\<rparr> else c) cs) = c_id ` set cs"
proof -
  have "map c_id (map (\<lambda>c. if c_id c = cid then c\<lparr>c_updatedAt := ts\<rparr> else c) cs) = map c_id cs"
    by (induction cs) auto
  then have "set (map c_id (map (\<lambda>c. if c_id c = cid then c\<lparr>c_updatedAt := ts\<rparr> else c) cs)) =
             set (map c_id cs)"
    by (rule arg_cong)
  then show ?thesis
    by (simp only: set_map)
qed

lemma fk_ok_create: "fk_ok d \<Longrightarrow> fk_ok (snd (createConversation d uuid now_ms))"
proof (cases "uuid \<in> c_id ` set (tbl_conversations d)")
  case True
  assume "fk_ok d"
  with True show ?thesis by (simp add: createConversation_cases)
next
  case False
  assume "fk_ok d"
  then have "m_conversationId ` set (tbl_messages d) \<subseteq> c_id ` set (tbl_conversations d)"
    by (simp add: fk_ok_def)
  then have "m_conversationId ` set (tbl_messages d) \<subseteq>
             insert uuid (c_id ` set (tbl_conversations d))"
    by blast
  with False show ?thesis by (simp add: createConversation_cases fk_ok_def)
qed

lemma fk_ok_append: "fk_ok d \<Longrightarrow> fk_ok (snd (addMessage d uuid now_ms cid s tx))"
proof -
  assume a: "fk_ok d"
  obtain res d' where r: "addMessage d uuid now_ms cid s tx = (res, d')"
    by (cases "addMessage d uuid now_ms cid s tx")
  from addMessage_cases [OF r] show ?thesis
  proof
    assume "d' = d \<and> (\<exists>e. res = Inl e)"
    with r a show ?thesis by simp
  next
    assume "\<exists>c. getConversation d cid = Some c \<and> uuid \<notin> m_id ` set (tbl_messages d)"
    then obtain c where c: "getConversation d cid = Some c"
      and f: "uuid \<notin> m_id ` set (tbl_messages d)" by blast
    from getConversation_Some [OF c] have "c_id c = cid" and "c \<in> set (tbl_conversations d)"
      by simp_all
    then have i: "cid \<in> c_id ` set (tbl_conversations d)" by blast
    from a have "m_conversationId ` set (tbl_messages d) \<subseteq> c_id ` set (tbl_conversations d)"
      by (simp add: fk_ok_def)
    with i have "insert cid (m_conversationId ` set (tbl_messages d)) \<subseteq>
                 c_id ` set (tbl_conversations d)"
      by blast
    then show ?thesis
      unfolding addMessage_ok [OF c f] fk_ok_def snd_conv db.select_convs ids_after_touch
      by simp
  qed
qed

lemma fk_ok_run_op: "fk_ok d \<Longrightarrow> fk_ok (run_op d op)"
  by (cases op) (simp_all add: fk_ok_create fk_ok_append)

lemma fk_ok_run_ops: "fk_ok d \<Longrightarrow> fk_ok (run_ops d ops)"
proof (induction ops arbitrary: d)
  case Nil
  then show ?case by (simp add: run_ops_def)
next
  case (Cons op ops)
  from Cons.IH [OF fk_ok_run_op [OF Cons.prems]] show ?case by (simp add: run_ops_def)
qed

lemma fk_ok_empty: "fk_ok empty_db"
  by (simp add: fk_ok_def empty_db_def)

lemma getMessages_unknown:
  "fk_ok d \<Longrightarrow> getConversation d cid = None \<Longrightarrow> getMessages d cid = []"
proof -
  assume a: "fk_ok d" and n: "getConversation d cid = None"
  from n have "cid \<notin> c_id ` set (tbl_conversations d)" by (simp add: getConversation_None)
  with a have "cid \<notin> m_conversationId ` set (tbl_messages d)" unfolding fk_ok_def by blast
  then have "filter (\<lambda>m. m_conversationId m = cid) (tbl_messages d) = []"
    by (auto simp: filter_empty_conv)
  then show ?thesis by (simp add: getMessages_def)
qed

text \<open>
  Claim C9. In any store reached from the empty one by the service's operations,
  \<open>getMessages\<close> of an identifier that resolves to no conversation returns the empty
  list; it throws nothing (the model's \<open>getMessages\<close> has no error result, as the source
  has no \<^verbatim>\<open>throw\<close>). Creating the conversation under that identifier changes nothing in
  the answer: the unknown conversation and the existing empty one list alike.
\<close>

theorem getMessages_unknown_conversation_empty:
  assumes "getConversation (run_ops empty_db ops) cid = None"
  shows "getMessages (run_ops empty_db ops) cid = []
         \<and> (\<exists>c. getConversation (snd (createConversation (run_ops empty_db ops) cid now_ms)) cid = Some c)
         \<and> getMessages (snd (createConversation (run_ops empty_db ops) cid now_ms)) cid =
             getMessages (run_ops empty_db ops) cid"
proof -
  let ?d = "run_ops empty_db ops"
  have fk: "fk_ok ?d" by (rule fk_ok_run_ops [OF fk_ok_empty])
  from assms have nin: "cid \<notin> c_id ` set (tbl_conversations ?d)"
    by (simp add: getConversation_None)
  have a: "getMessages ?d cid = []" by (rule getMessages_unknown [OF fk assms])
  have b: "\<exists>c. getConversation (snd (createConversation ?d cid now_ms)) cid = Some c"
  proof -
    have "cid \<in> c_id ` set (tbl_conversations (snd (createConversation ?d cid now_ms)))"
      using nin by (simp add: createConversation_cases)
    then have "getConversation (snd (createConversation ?d cid now_ms)) cid \<noteq> None"
      by (simp add: getConversation_None)
    then show ?thesis by blast
  qed
  have c: "getMessages (snd (createConversation ?d cid now_ms)) cid = getMessages ?d cid"
    using nin by (simp add: createConversation_cases getMessages_def)
  from a b c show ?thesis by blast
qed

theorem getMessages_unknown_conversation_empty_witness:
  "getConversation
     (run_ops empty_db
        [Create_conversation ''c1'' 2000, Append_message ''m1'' 2500 ''c1'' User ''Hi'',
         Append_message ''m2'' 4100 ''c1'' Ai ''Hello!'']) ''c9'' = None
   \<and> getMessages
     (run_ops empty_db
        [Create_conversation ''c1'' 2000, Append_message ''m1'' 2500 ''c1'' User ''Hi'',
         Append_message ''m2'' 4100 ''c1'' Ai ''Hello!'']) ''c9'' = []"
proof -
  have n: "getConversation
     (run_ops empty_db
        [Create_conversation ''c1'' 2000, Append_message ''m1'' 2500 ''c1'' User ''Hi'',
         Append_message ''m2'' 4100 ''c1'' Ai ''Hello!'']) ''c9'' = None"
    unfolding run_ops_example2 by (simp add: getConversation_def)
  from getMessages_unknown_conversation_empty [OF n] n show ?thesis by blast
qed


section \<open>Properties of the request handler\<close>

subsection \<open>Supporting facts\<close>

lemma respond_error_not_reply: "respond_error e \<noteq> Json_reply reply sid"
  by (cases e) (simp_all add: respond_error_def)

lemma generateReply_later_turn:
  "h \<noteq> [] \<Longrightarrow> fst (snd (generateReply dp r um h)) = r"
  by (auto simp: generateReply_def Let_def split: prod.splits sum.splits)

lemma generateReply_cache_hit_only_first:
  "h \<noteq> [] \<Longrightarrow> generateReply dp r um h = (Inr reply, r', calls) \<Longrightarrow> calls \<noteq> []"
  by (auto simp: generateReply_def Let_def generateWithGroq_def generateWithGemini_def
      generateWithOpenAI_def split: prod.splits sum.splits provider.splits option.splits if_splits)

lemma insort_key_snoc:
  "f x \<le> f m \<Longrightarrow> insort_key f x (zs @ [m]) = insort_key f x zs @ [m]"
  by (induction zs) auto

lemma foldr_insort_snoc:
  "\<forall>x \<in> set xs. f x \<le> f m \<Longrightarrow>
   foldr (insort_key f) xs (ys @ [m]) = foldr (insort_key f) xs ys @ [m]"
  by (induction xs) (simp_all add: insort_key_snoc)

lemma sort_key_snoc:
  "\<forall>x \<in> set xs. f x \<le> f m \<Longrightarrow> sort_key f (xs @ [m]) = sort_key f xs @ [m]"
  using foldr_insort_snoc [of xs f m "[]"] by (simp add: sort_key_def)

lemma getMessages_snoc:
  assumes "\<forall>x \<in> set (tbl_messages d). m_conversationId x = cid \<longrightarrow> m_timestamp x \<le> m_timestamp m"
      and "m_conversationId m = cid"
  shows "getMessages (d\<lparr>tbl_messages := tbl_messages d @ [m]\<rparr>) cid = getMessages d cid @ [m]"
  using assms by (simp add: getMessages_def sort_key_snoc)

lemma getMessages_conversations_irrelevant:
  "getMessages (d\<lparr>tbl_conversations := cs\<rparr>) cid = getMessages d cid"
  by (simp add: getMessages_def)

lemma getMessages_nonempty:
  "m \<in> set (tbl_messages d) \<Longrightarrow> m_conversationId m = cid \<Longrightarrow> getMessages d cid \<noteq> []"
proof -
  assume "m \<in> set (tbl_messages d)" and "m_conversationId m = cid"
  then have "m \<in> set (getMessages d cid)" by (simp add: getMessages_def)
  then show ?thesis by auto
qed

lemma length_getMessages_snoc:
  "m_conversationId m = cid \<Longrightarrow>
   length (getMessages (d\<lparr>tbl_messages := tbl_messages d @ [m]\<rparr>) cid) = Suc (length (getMessages d cid))"
  by (simp add: getMessages_def)

lemma getMessages_update_conversation:
  "getMessages (update_conversation d ts cid) cid' = getMessages d cid'"
  by (simp add: getMessages_def update_conversation_def)

lemma tbl_messages_update_conversation:
  "tbl_messages (update_conversation d ts cid) = tbl_messages d"
  by (simp add: update_conversation_def)

lemma addMessage_Inr:
  assumes "addMessage d uuid now_ms cid s t = (Inr msg, d')"
  shows "\<exists>c. getConversation d cid = Some c
           \<and> uuid \<notin> m_id ` set (tbl_messages d)
           \<and> msg = \<lparr>m_id = uuid, m_conversationId = cid, m_sender = s, m_text = t,
                     m_timestamp = now_ms div 1000\<rparr>
           \<and> d' = update_conversation (d\<lparr>tbl_messages := tbl_messages d @ [msg]\<rparr>)
                     (now_ms div 1000) cid
           \<and> getConversation d' cid = Some (c\<lparr>c_updatedAt := now_ms div 1000\<rparr>)"
proof -
  from addMessage_cases [OF assms] obtain c
    where c: "getConversation d cid = Some c" and f: "uuid \<notin> m_id ` set (tbl_messages d)"
    by auto
  from addMessage_found [OF c f, where s=s and t=t and now_ms=now_ms] assms c f show ?thesis
    by (auto simp: Let_def)
qed

lemma handle_turn_reply:
  assumes "handle_turn dp dr cid message d r = (Json_reply reply sid', d', r', calls)"
  shows "\<exists>c d1 u a.
           getConversation d cid = Some c
           \<and> sid' = cid
           \<and> u = \<lparr>m_id = user_uuid dr, m_conversationId = cid, m_sender = User,
                   m_text = message, m_timestamp = user_now dr div 1000\<rparr>
           \<and> a = \<lparr>m_id = ai_uuid dr, m_conversationId = cid, m_sender = Ai,
                   m_text = reply, m_timestamp = ai_now dr div 1000\<rparr>
           \<and> d1 = update_conversation (d\<lparr>tbl_messages := tbl_messages d @ [u]\<rparr>)
                     (user_now dr div 1000) cid
           \<and> generateReply dp r message (getMessages d1 cid) = (Inr reply, r', calls)
           \<and> d' = update_conversation (d1\<lparr>tbl_messages := tbl_messages d1 @ [a]\<rparr>)
                     (ai_now dr div 1000) cid
           \<and> getConversation d' cid = Some (c\<lparr>c_updatedAt := ai_now dr div 1000\<rparr>)"
proof -
  obtain res1 d1 where a1:
    "addMessage d (user_uuid dr) (user_now dr) cid User message = (res1, d1)"
    by (cases "addMessage d (user_uuid dr) (user_now dr) cid User message")
  show ?thesis
  proof (cases res1)
    case (Inl e)
    with assms a1 show ?thesis by (simp add: handle_turn_def respond_error_not_reply)
  next
    case (Inr u)
    note u = this
    from addMessage_Inr [OF a1 [unfolded u]] obtain c where
      c: "getConversation d cid = Some c" and
      ueq: "u = \<lparr>m_id = user_uuid dr, m_conversationId = cid, m_sender = User,
                   m_text = message, m_timestamp = user_now dr div 1000\<rparr>" and
      d1eq: "d1 = update_conversation (d\<lparr>tbl_messages := tbl_messages d @ [u]\<rparr>)
                     (user_now dr div 1000) cid" and
      c1: "getConversation d1 cid = Some (c\<lparr>c_updatedAt := user_now dr div 1000\<rparr>)"
      by blast
    obtain res2 r2 calls2 where g:
      "generateReply dp r message (getMessages d1 cid) = (res2, r2, calls2)"
      by (cases "generateReply dp r message (getMessages d1 cid)") auto
    show ?thesis
    proof (cases res2)
      case (Inl e)
      with assms a1 u g show ?thesis
        by (simp add: handle_turn_def respond_error_not_reply)
    next
      case (Inr reply2)
      note r2 = this
      obtain res3 d3 where a3:
        "addMessage d1 (ai_uuid dr) (ai_now dr) cid Ai reply2 = (res3, d3)"
        by (cases "addMessage d1 (ai_uuid dr) (ai_now dr) cid Ai reply2")
      show ?thesis
      proof (cases res3)
        case (Inl e)
        with assms a1 u g r2 a3 show ?thesis
          by (simp add: handle_turn_def respond_error_not_reply)
      next
        case (Inr a)
        with assms a1 u g r2 a3 have
          eqs: "reply2 = reply" "sid' = cid" "d3 = d'" "r2 = r'" "calls2 = calls"
          by (simp_all add: handle_turn_def)
        from addMessage_Inr [OF a3 [unfolded Inr]] c1 obtain
          aeq: "a = \<lparr>m_id = ai_uuid dr, m_conversationId = cid, m_sender = Ai,
                   m_text = reply2, m_timestamp = ai_now dr div 1000\<rparr>" and
          d3eq: "d3 = update_conversation (d1\<lparr>tbl_messages := tbl_messages d1 @ [a]\<rparr>)
                     (ai_now dr div 1000) cid" and
          c3: "getConversation d3 cid =
                 Some (c\<lparr>c_updatedAt := user_now dr div 1000\<rparr>\<lparr>c_updatedAt := ai_now dr div 1000\<rparr>)"
          by auto
        from c3 have c3': "getConversation d3 cid = Some (c\<lparr>c_updatedAt := ai_now dr div 1000\<rparr>)"
          by simp
        from c eqs ueq aeq d1eq g r2 d3eq c3' show ?thesis
          by blast
      qed
    qed
  qed
qed

lemma handle_turn_history_has_current:
  assumes "handle_turn dp dr cid message d r = (Json_reply reply sid', d', r', calls)"
  shows "\<exists>h. generateReply dp r message h = (Inr reply, r', calls)
           \<and> \<lparr>m_id = user_uuid dr, m_conversationId = cid, m_sender = User,
                m_text = message, m_timestamp = user_now dr div 1000\<rparr> \<in> set h"
proof -
  from handle_turn_reply [OF assms] obtain d1 u where
    u: "u = \<lparr>m_id = user_uuid dr, m_conversationId = cid, m_sender = User,
                   m_text = message, m_timestamp = user_now dr div 1000\<rparr>" and
    d1: "d1 = update_conversation (d\<lparr>tbl_messages := tbl_messages d @ [u]\<rparr>)
                     (user_now dr div 1000) cid" and
    g: "generateReply dp r message (getMessages d1 cid) = (Inr reply, r', calls)"
    by blast
  have "u \<in> set (getMessages d1 cid)"
    by (simp add: d1 getMessages_def tbl_messages_update_conversation u)
  with g u show ?thesis by blast
qed

lemma handle_turn_cache_unused: "fst (snd (snd (handle_turn dp dr cid message d r))) = r"
proof -
  obtain res1 d1 where a1:
    "addMessage d (user_uuid dr) (user_now dr) cid User message = (res1, d1)"
    by (cases "addMessage d (user_uuid dr) (user_now dr) cid User message")
  show ?thesis
  proof (cases res1)
    case (Inl e)
    with a1 show ?thesis by (simp add: handle_turn_def)
  next
    case (Inr u)
    from addMessage_Inr [OF a1 [unfolded Inr]] have
      "d1 = update_conversation (d\<lparr>tbl_messages := tbl_messages d @ [u]\<rparr>)
              (user_now dr div 1000) cid" and "m_conversationId u = cid"
      by auto
    then have "u \<in> set (getMessages d1 cid)"
      by (simp add: getMessages_def tbl_messages_update_conversation)
    then have ne: "getMessages d1 cid \<noteq> []" by auto
    from generateReply_later_turn [OF ne] have
      "fst (snd (generateReply dp r message (getMessages d1 cid))) = r" .
    with a1 Inr show ?thesis
      by (auto simp: handle_turn_def Let_def split: prod.splits sum.splits)
  qed
qed

lemma post_message_cache_unused: "fst (snd (snd (post_message dp dr b d r))) = r"
  by (auto simp: post_message_def handle_turn_cache_unused split: sum.splits prod.splits)

lemma post_message_reply_is_generated:
  assumes "post_message dp dr b d r = (Json_reply reply sid, d', r', calls)"
  shows "calls \<noteq> []"
proof -
  from assms obtain cid message d0 where
    "handle_turn dp dr cid message d0 r = (Json_reply reply sid, d', r', calls)"
    by (auto simp: post_message_def respond_error_not_reply split: sum.splits prod.splits)
  from handle_turn_history_has_current [OF this] obtain h u where
    "generateReply dp r message h = (Inr reply, r', calls)" and "u \<in> set h" by blast
  then have "h \<noteq> []" and "generateReply dp r message h = (Inr reply, r', calls)"
    by auto
  then show ?thesis by (rule generateReply_cache_hit_only_first)
qed

lemma post_message_existing:
  assumes "b_sessionId b = Str sid" and "sid \<noteq> []" and "getConversation d sid = Some c"
      and "post_message dp dr b d r = (Json_reply reply sid', d', r', calls)"
  shows "\<exists>message. b_message b = Str message
           \<and> handle_turn dp dr sid message d r = (Json_reply reply sid', d', r', calls)"
proof (cases "messageSchema_parse dp b")
  case (Inl e)
  with assms(4) show ?thesis by (simp add: post_message_def respond_error_not_reply)
next
  case (Inr parsed)
  with assms(1) obtain message where
    p: "parsed = (message, Some sid)" and m: "b_message b = Str message"
    by (auto simp: messageSchema_parse_def split: jsval.splits if_splits)
  from assms(2,3) have "resolve_conversation dr (Some sid) d = (Inr sid, d)"
    by (simp add: resolve_conversation_def)
  with assms(4) Inr p m show ?thesis by (simp add: post_message_def)
qed

lemma post_message_rejects_length:
  "b_message b = Str m \<Longrightarrow> length m = 0 \<or> 5000 < length m \<Longrightarrow>
   post_message dp dr b d r = (Bad_request, d, r, [])"
  by (auto simp: post_message_def messageSchema_parse_def respond_error_def)

lemma post_message_rejects_non_string:
  "b_message b \<noteq> Str m \<Longrightarrow> b_message b = Undefined \<or> b_message b = Other \<Longrightarrow>
   post_message dp dr b d r = (Bad_request, d, r, [])"
  by (auto simp: post_message_def messageSchema_parse_def respond_error_def)


subsection \<open>Evaluated requests\<close>

lemma cache_key_example:
  "getCacheKey dp ''Return policy?'' = getCacheKey dp ''return policy? ''"
  by (simp add: getCacheKey_def toLowerCase_def trim_def is_ws_def)

lemmas store_eval =
  createConversation_cases addMessage_def addMessage_steps_def insert_message_def
  update_conversation_def getConversation_def getMessages_def empty_db_def Let_def

lemma first_request_example:
  "post_message (example_deps\<lparr>sha256_hex := H\<rparr>)
     \<lparr>conv_uuid = ''c1'', conv_now = 1000, user_uuid = ''u1'', user_now = 1000,
      ai_uuid = ''a1'', ai_now = 2000\<rparr>
     \<lparr>b_message = Str ''Return policy?'', b_sessionId = Undefined\<rparr>
     empty_db r =
   (Json_reply ''Returns are accepted within 30 days.'' ''c1'',
    \<lparr>tbl_conversations = [\<lparr>c_id = ''c1'', c_createdAt = 1, c_updatedAt = 2\<rparr>],
     tbl_messages =
       [\<lparr>m_id = ''u1'', m_conversationId = ''c1'', m_sender = User,
          m_text = ''Return policy?'', m_timestamp = 1\<rparr>,
        \<lparr>m_id = ''a1'', m_conversationId = ''c1'', m_sender = Ai,
          m_text = ''Returns are accepted within 30 days.'', m_timestamp = 2\<rparr>]\<rparr>,
    r,
    [Chat_call OpenAI
       (openai_request ''Return policy?''
          [\<lparr>m_id = ''u1'', m_conversationId = ''c1'', m_sender = User,
             m_text = ''Return policy?'', m_timestamp = 1\<rparr>])])"
  by (simp add: post_message_def messageSchema_parse_def resolve_conversation_def
      handle_turn_def store_eval generateReply_example)


lemma second_request_example:
  "post_message (example_deps\<lparr>sha256_hex := H\<rparr>)
     \<lparr>conv_uuid = ''c2'', conv_now = 5000, user_uuid = ''u2'', user_now = 5000,
      ai_uuid = ''a2'', ai_now = 6000\<rparr>
     \<lparr>b_message = Str ''return policy? '', b_sessionId = Undefined\<rparr>
     \<lparr>tbl_conversations = [\<lparr>c_id = ''c1'', c_createdAt = 1, c_updatedAt = 2\<rparr>],
      tbl_messages =
        [\<lparr>m_id = ''u1'', m_conversationId = ''c1'', m_sender = User,
           m_text = ''Return policy?'', m_timestamp = 1\<rparr>,
         \<lparr>m_id = ''a1'', m_conversationId = ''c1'', m_sender = Ai,
           m_text = ''Returns are accepted within 30 days.'', m_timestamp = 2\<rparr>]\<rparr>
     r =
   (Json_reply ''Returns are accepted within 30 days.'' ''c2'',
    \<lparr>tbl_conversations = [\<lparr>c_id = ''c1'', c_createdAt = 1, c_updatedAt = 2\<rparr>,
                          \<lparr>c_id = ''c2'', c_createdAt = 5, c_updatedAt = 6\<rparr>],
     tbl_messages =
       [\<lparr>m_id = ''u1'', m_conversationId = ''c1'', m_sender = User,
          m_text = ''Return policy?'', m_timestamp = 1\<rparr>,
        \<lparr>m_id = ''a1'', m_conversationId = ''c1'', m_sender = Ai,
          m_text = ''Returns are accepted within 30 days.'', m_timestamp = 2\<rparr>,
        \<lparr>m_id = ''u2'', m_conversationId = ''c2'', m_sender = User,
          m_text = ''return policy? '', m_timestamp = 5\<rparr>,
        \<lparr>m_id = ''a2'', m_conversationId = ''c2'', m_sender = Ai,
          m_text = ''Returns are accepted within 30 days.'', m_timestamp = 6\<rparr>]\<rparr>,
    r,
    [Chat_call OpenAI
       (openai_request ''return policy? ''
          [\<lparr>m_id = ''u2'', m_conversationId = ''c2'', m_sender = User,
             m_text = ''return policy? '', m_timestamp = 5\<rparr>])])"
  by (simp add: post_message_def messageSchema_parse_def resolve_conversation_def
      handle_turn_def store_eval generateReply_example)

text \<open>
  Claim C1, against the code. The route appends the user message and then passes the
  whole stored history to \<open>generateReply\<close>, which looks in the cache only when the
  history is empty; so on a first turn the history has length 1 and no lookup happens
  (\<open>post_message_cache_unused\<close> and \<open>post_message_reply_is_generated\<close> above say so for
  every request). Here two new conversations open with "Return policy?" and
  "return policy? ", for any hash function \<open>H\<close> and with the cache enabled and empty: the two
  texts have the same cache key, both requests succeed, each calls the OpenAI backend
  once (two calls, where the claim allows one), and the cache is still empty after each.
\<close>

theorem first_turns_both_reach_provider:
  "(let dp = example_deps\<lparr>sha256_hex := H\<rparr>;
        (response1, db1, cache1, calls1) =
          post_message dp
            \<lparr>conv_uuid = ''c1'', conv_now = 1000, user_uuid = ''u1'', user_now = 1000,
             ai_uuid = ''a1'', ai_now = 2000\<rparr>
            \<lparr>b_message = Str ''Return policy?'', b_sessionId = Undefined\<rparr>
            empty_db (Some Map.empty);
        (response2, db2, cache2, calls2) =
          post_message dp
            \<lparr>conv_uuid = ''c2'', conv_now = 5000, user_uuid = ''u2'', user_now = 5000,
             ai_uuid = ''a2'', ai_now = 6000\<rparr>
            \<lparr>b_message = Str ''return policy? '', b_sessionId = Undefined\<rparr>
            db1 cache1
    in getCacheKey dp ''Return policy?'' = getCacheKey dp ''return policy? ''
       \<and> response1 = Json_reply ''Returns are accepted within 30 days.'' ''c1''
       \<and> response2 = Json_reply ''Returns are accepted within 30 days.'' ''c2''
       \<and> length calls1 = 1 \<and> length calls2 = 1 \<and> length (calls1 @ calls2) = 2
       \<and> cache1 = Some Map.empty \<and> cache2 = Some Map.empty)"
  by (simp add: first_request_example second_request_example cache_key_example Let_def)

lemma zod_uuid_example: "zod_uuid (example_deps\<lparr>sha256_hex := H\<rparr>) = uuid_shape"
  by (simp add: example_deps_def)

lemma uuid_shape_example: "uuid_shape example_session"
  by (simp add: uuid_shape_def is_hex_def example_session_def)

lemma example_session_nonempty: "example_session \<noteq> []"
  by (simp add: example_session_def)

lemma later_turn_example:
  "post_message (example_deps\<lparr>sha256_hex := H\<rparr>)
     \<lparr>conv_uuid = ''c9'', conv_now = 60000, user_uuid = ''u3'', user_now = 61000,
      ai_uuid = ''a3'', ai_now = 62000\<rparr>
     \<lparr>b_message = Str ''Return policy?'', b_sessionId = Str example_session\<rparr>
     example_db2 r =
   (Json_reply ''Returns are accepted within 30 days.'' example_session,
    \<lparr>tbl_conversations = [\<lparr>c_id = example_session, c_createdAt = 1, c_updatedAt = 62\<rparr>],
     tbl_messages =
       [\<lparr>m_id = ''m1'', m_conversationId = example_session, m_sender = User, m_text = ''Hi'',
          m_timestamp = 1\<rparr>,
        \<lparr>m_id = ''m2'', m_conversationId = example_session, m_sender = Ai,
          m_text = ''Hello!'', m_timestamp = 2\<rparr>,
        \<lparr>m_id = ''u3'', m_conversationId = example_session, m_sender = User,
          m_text = ''Return policy?'', m_timestamp = 61\<rparr>,
        \<lparr>m_id = ''a3'', m_conversationId = example_session, m_sender = Ai,
          m_text = ''Returns are accepted within 30 days.'', m_timestamp = 62\<rparr>]\<rparr>,
    r,
    [Chat_call OpenAI
       (openai_request ''Return policy?''
          [\<lparr>m_id = ''m1'', m_conversationId = example_session, m_sender = User,
             m_text = ''Hi'', m_timestamp = 1\<rparr>,
           \<lparr>m_id = ''m2'', m_conversationId = example_session, m_sender = Ai,
             m_text = ''Hello!'', m_timestamp = 2\<rparr>,
           \<lparr>m_id = ''u3'', m_conversationId = example_session, m_sender = User,
             m_text = ''Return policy?'', m_timestamp = 61\<rparr>])])"
  by (simp add: post_message_def messageSchema_parse_def resolve_conversation_def
      handle_turn_def store_eval generateReply_example example_db2_def
      zod_uuid_example uuid_shape_example example_session_nonempty)

text \<open>
  Claim C2, against the code. The history handed to the provider adapter is read after
  the user message has been stored, so it ends with that message, and the adapter then
  appends the user message once more. For a second turn on \<open>example_db2\<close> the request sent
  to OpenAI holds the system instruction, the two prior messages, and "Return policy?"
  twice.
\<close>

theorem prompt_repeats_current_message:
  "snd (snd (snd
     (post_message (example_deps\<lparr>sha256_hex := H\<rparr>)
        \<lparr>conv_uuid = ''c9'', conv_now = 60000, user_uuid = ''u3'', user_now = 61000,
         ai_uuid = ''a3'', ai_now = 62000\<rparr>
        \<lparr>b_message = Str ''Return policy?'', b_sessionId = Str example_session\<rparr>
        example_db2 r))) =
   [Chat_call OpenAI
      \<lparr>model = ''gpt-3.5-turbo'',
       messages =
         [\<lparr>role = Role_system, content = STORE_KNOWLEDGE\<rparr>,
          \<lparr>role = Role_user, content = ''Hi''\<rparr>,
          \<lparr>role = Role_assistant, content = ''Hello!''\<rparr>,
          \<lparr>role = Role_user, content = ''Return policy?''\<rparr>,
          \<lparr>role = Role_user, content = ''Return policy?''\<rparr>],
       max_tokens = 200, temperature = 7 / 10\<rparr>]"
  by (simp add: later_turn_example openai_request_def chat_messages_def recentHistory_drop
      to_param_def maxTokens_def)

text \<open>
  Claim C3, against the code. \<^verbatim>\<open>messageSchema\<close> bounds the length of the message as it
  arrives, without trimming. A message of three blanks has length 0 after trimming, yet
  the request is answered with a reply, a conversation is created, and the blank message
  and the reply are both stored. The other half of the claim holds:
  \<open>post_message_rejects_length\<close> above shows that an empty message and one longer than 5000
  are answered with status 400 and change nothing.
\<close>

theorem blank_message_accepted:
  "post_message (example_deps\<lparr>sha256_hex := H\<rparr>)
     \<lparr>conv_uuid = ''c1'', conv_now = 1000, user_uuid = ''u1'', user_now = 1000,
      ai_uuid = ''a1'', ai_now = 2000\<rparr>
     \<lparr>b_message = Str ''   '', b_sessionId = Undefined\<rparr>
     empty_db r =
   (Json_reply ''Returns are accepted within 30 days.'' ''c1'',
    \<lparr>tbl_conversations = [\<lparr>c_id = ''c1'', c_createdAt = 1, c_updatedAt = 2\<rparr>],
     tbl_messages =
       [\<lparr>m_id = ''u1'', m_conversationId = ''c1'', m_sender = User,
          m_text = ''   '', m_timestamp = 1\<rparr>,
        \<lparr>m_id = ''a1'', m_conversationId = ''c1'', m_sender = Ai,
          m_text = ''Returns are accepted within 30 days.'', m_timestamp = 2\<rparr>]\<rparr>,
    r,
    [Chat_call OpenAI
       (openai_request ''   ''
          [\<lparr>m_id = ''u1'', m_conversationId = ''c1'', m_sender = User,
             m_text = ''   '', m_timestamp = 1\<rparr>])])
   \<and> length (trim ''   '') = 0"
  by (simp add: post_message_def messageSchema_parse_def resolve_conversation_def
      handle_turn_def store_eval generateReply_example trim_def is_ws_def)

subsection \<open>A turn on an existing conversation\<close>

text \<open>
  Claim C4, as amended. A request whose \<^verbatim>\<open>sessionId\<close> resolves to a stored conversation
  and that is answered with a reply keeps that identifier, appends exactly two rows to
  the messages table, first the user message with the submitted text and then the agent
  message with the reply, so the conversation's history is two longer, and sets the
  conversation's updated-timestamp to the clock reading, in whole seconds, taken when the
  reply is stored. If the store's timestamps were in order, the previous
  updated-timestamp is not after the first reading and the clock does not go back during
  the turn, then the history read back is the old one followed by these two messages and
  the updated-timestamp has not decreased. It increases only when the second has changed.
\<close>

theorem turn_on_existing_conversation:
  assumes "b_sessionId b = Str sid" and "sid \<noteq> []" and "getConversation d sid = Some c"
      and "post_message dp dr b d r = (Json_reply reply sid', d', r', calls)"
  shows "\<exists>message u a.
           b_message b = Str message \<and> sid' = sid
           \<and> u = \<lparr>m_id = user_uuid dr, m_conversationId = sid, m_sender = User,
                   m_text = message, m_timestamp = user_now dr div 1000\<rparr>
           \<and> a = \<lparr>m_id = ai_uuid dr, m_conversationId = sid, m_sender = Ai,
                   m_text = reply, m_timestamp = ai_now dr div 1000\<rparr>
           \<and> tbl_messages d' = tbl_messages d @ [u, a]
           \<and> length (getMessages d' sid) = length (getMessages d sid) + 2
           \<and> getConversation d' sid = Some (c\<lparr>c_updatedAt := ai_now dr div 1000\<rparr>)
           \<and> (timestamps_ok d \<and> c_updatedAt c \<le> user_now dr div 1000 \<and>
                user_now dr \<le> ai_now dr \<longrightarrow>
                getMessages d' sid = getMessages d sid @ [u, a] \<and>
                c_updatedAt c \<le> ai_now dr div 1000)"
proof -
  from post_message_existing [OF assms] obtain message where
    m: "b_message b = Str message" and
    h: "handle_turn dp dr sid message d r = (Json_reply reply sid', d', r', calls)"
    by blast
  from handle_turn_reply [OF h] assms(3) obtain d1 u a where
    s: "sid' = sid" and
    u: "u = \<lparr>m_id = user_uuid dr, m_conversationId = sid, m_sender = User,
                   m_text = message, m_timestamp = user_now dr div 1000\<rparr>" and
    a: "a = \<lparr>m_id = ai_uuid dr, m_conversationId = sid, m_sender = Ai,
                   m_text = reply, m_timestamp = ai_now dr div 1000\<rparr>" and
    d1: "d1 = update_conversation (d\<lparr>tbl_messages := tbl_messages d @ [u]\<rparr>)
                     (user_now dr div 1000) sid" and
    d': "d' = update_conversation (d1\<lparr>tbl_messages := tbl_messages d1 @ [a]\<rparr>)
                     (ai_now dr div 1000) sid" and
    c': "getConversation d' sid = Some (c\<lparr>c_updatedAt := ai_now dr div 1000\<rparr>)"
    by auto
  have ms: "tbl_messages d' = tbl_messages d @ [u, a]"
    by (simp add: d' d1 tbl_messages_update_conversation)
  have g1: "getMessages d1 sid = getMessages (d\<lparr>tbl_messages := tbl_messages d @ [u]\<rparr>) sid"
    by (simp add: d1 getMessages_update_conversation)
  have g2: "getMessages d' sid = getMessages (d1\<lparr>tbl_messages := tbl_messages d1 @ [a]\<rparr>) sid"
    by (simp add: d' getMessages_update_conversation)
  have len: "length (getMessages d' sid) = length (getMessages d sid) + 2"
    unfolding g2 by (simp add: length_getMessages_snoc a g1 u)
  have ord: "getMessages d' sid = getMessages d sid @ [u, a] \<and>
             c_updatedAt c \<le> ai_now dr div 1000"
    if ok: "timestamps_ok d" and le1: "c_updatedAt c \<le> user_now dr div 1000"
      and le2: "user_now dr \<le> ai_now dr"
  proof -
    from getConversation_Some [OF assms(3)] have cin: "c \<in> set (tbl_conversations d)"
      and cid: "c_id c = sid" by simp_all
    from le2 have le3: "user_now dr div 1000 \<le> ai_now dr div 1000" by (simp add: zdiv_mono1)
    have old: "\<forall>x \<in> set (tbl_messages d). m_conversationId x = sid \<longrightarrow>
                 m_timestamp x \<le> m_timestamp u"
      using ok cin cid le1 unfolding timestamps_ok_def u by fastforce
    have e1: "getMessages d1 sid = getMessages d sid @ [u]"
      unfolding g1 by (rule getMessages_snoc [OF old]) (simp add: u)
    have tm1: "tbl_messages d1 = tbl_messages d @ [u]"
      by (simp add: d1 tbl_messages_update_conversation)
    have old1: "\<forall>x \<in> set (tbl_messages d1). m_conversationId x = sid \<longrightarrow>
                 m_timestamp x \<le> m_timestamp a"
      using old le3 unfolding tm1 by (auto simp: u a)
    have e2: "getMessages d' sid = getMessages d1 sid @ [a]"
      unfolding g2 by (rule getMessages_snoc [OF old1]) (simp add: a)
    from e1 e2 le1 le3 show ?thesis by simp
  qed
  from m s u a ms len c' ord show ?thesis by blast
qed

theorem turn_on_existing_conversation_witness:
  "b_sessionId \<lparr>b_message = Str ''Return policy?'', b_sessionId = Str example_session\<rparr> =
     Str example_session
   \<and> example_session \<noteq> []
   \<and> getConversation example_db2 example_session =
       Some \<lparr>c_id = example_session, c_createdAt = 1, c_updatedAt = 2\<rparr>
   \<and> fst (post_message example_deps
        \<lparr>conv_uuid = ''c9'', conv_now = 60000, user_uuid = ''u3'', user_now = 61000,
         ai_uuid = ''a3'', ai_now = 62000\<rparr>
        \<lparr>b_message = Str ''Return policy?'', b_sessionId = Str example_session\<rparr>
        example_db2 None) =
       Json_reply ''Returns are accepted within 30 days.'' example_session
   \<and> timestamps_ok example_db2
   \<and> getMessages
        (fst (snd (post_message example_deps
          \<lparr>conv_uuid = ''c9'', conv_now = 60000, user_uuid = ''u3'', user_now = 61000,
           ai_uuid = ''a3'', ai_now = 62000\<rparr>
          \<lparr>b_message = Str ''Return policy?'', b_sessionId = Str example_session\<rparr>
          example_db2 None))) example_session =
       getMessages example_db2 example_session @
       [\<lparr>m_id = ''u3'', m_conversationId = example_session, m_sender = User,
          m_text = ''Return policy?'', m_timestamp = 61\<rparr>,
        \<lparr>m_id = ''a3'', m_conversationId = example_session, m_sender = Ai,
          m_text = ''Returns are accepted within 30 days.'', m_timestamp = 62\<rparr>]
   \<and> getConversation
        (fst (snd (post_message example_deps
          \<lparr>conv_uuid = ''c9'', conv_now = 60000, user_uuid = ''u3'', user_now = 61000,
           ai_uuid = ''a3'', ai_now = 62000\<rparr>
          \<lparr>b_message = Str ''Return policy?'', b_sessionId = Str example_session\<rparr>
          example_db2 None))) example_session =
       Some \<lparr>c_id = example_session, c_createdAt = 1, c_updatedAt = 62\<rparr>"
proof -
  let ?b = "\<lparr>b_message = Str ''Return policy?'', b_sessionId = Str example_session\<rparr>"
  let ?dr = "\<lparr>conv_uuid = ''c9'', conv_now = 60000, user_uuid = ''u3'', user_now = 61000,
         ai_uuid = ''a3'', ai_now = 62000\<rparr>"
  have h1: "b_sessionId ?b = Str example_session" by simp
  have h2: "example_session \<noteq> []" by (rule example_session_nonempty)
  have h3: "getConversation example_db2 example_session =
       Some \<lparr>c_id = example_session, c_createdAt = 1, c_updatedAt = 2\<rparr>"
    by (simp add: getConversation_def example_db2_def)
  have h4: "post_message example_deps ?dr ?b example_db2 None =
   (Json_reply ''Returns are accepted within 30 days.'' example_session,
    \<lparr>tbl_conversations = [\<lparr>c_id = example_session, c_createdAt = 1, c_updatedAt = 62\<rparr>],
     tbl_messages =
       [\<lparr>m_id = ''m1'', m_conversationId = example_session, m_sender = User, m_text = ''Hi'',
          m_timestamp = 1\<rparr>,
        \<lparr>m_id = ''m2'', m_conversationId = example_session, m_sender = Ai,
          m_text = ''Hello!'', m_timestamp = 2\<rparr>,
        \<lparr>m_id = ''u3'', m_conversationId = example_session, m_sender = User,
          m_text = ''Return policy?'', m_timestamp = 61\<rparr>,
        \<lparr>m_id = ''a3'', m_conversationId = example_session, m_sender = Ai,
          m_text = ''Returns are accepted within 30 days.'', m_timestamp = 62\<rparr>]\<rparr>,
    None,
    [Chat_call OpenAI
       (openai_request ''Return policy?''
          [\<lparr>m_id = ''m1'', m_conversationId = example_session, m_sender = User,
             m_text = ''Hi'', m_timestamp = 1\<rparr>,
           \<lparr>m_id = ''m2'', m_conversationId = example_session, m_sender = Ai,
             m_text = ''Hello!'', m_timestamp = 2\<rparr>,
           \<lparr>m_id = ''u3'', m_conversationId = example_session, m_sender = User,
             m_text = ''Return policy?'', m_timestamp = 61\<rparr>])])"
    using later_turn_example [of "sha256_hex example_deps" None] by simp
  have h5: "timestamps_ok example_db2"
    by (simp add: timestamps_ok_def example_db2_def)
  have h6: "(2::int) \<le> 61000 div 1000 \<and> (61000::int) \<le> 62000" by simp
  from turn_on_existing_conversation [OF h1 h2 h3 h4] h5 h6
  have "getMessages
         \<lparr>tbl_conversations = [\<lparr>c_id = example_session, c_createdAt = 1, c_updatedAt = 62\<rparr>],
          tbl_messages =
            [\<lparr>m_id = ''m1'', m_conversationId = example_session, m_sender = User,
               m_text = ''Hi'', m_timestamp = 1\<rparr>,
             \<lparr>m_id = ''m2'', m_conversationId = example_session, m_sender = Ai,
               m_text = ''Hello!'', m_timestamp = 2\<rparr>,
             \<lparr>m_id = ''u3'', m_conversationId = example_session, m_sender = User,
               m_text = ''Return policy?'', m_timestamp = 61\<rparr>,
             \<lparr>m_id = ''a3'', m_conversationId = example_session, m_sender = Ai,
               m_text = ''Returns are accepted within 30 days.'', m_timestamp = 62\<rparr>]\<rparr>
         example_session =
       getMessages example_db2 example_session @
       [\<lparr>m_id = ''u3'', m_conversationId = example_session, m_sender = User,
          m_text = ''Return policy?'', m_timestamp = 61\<rparr>,
        \<lparr>m_id = ''a3'', m_conversationId = example_session, m_sender = Ai,
          m_text = ''Returns are accepted within 30 days.'', m_timestamp = 62\<rparr>]"
    by auto
  with h1 h2 h3 h5 show ?thesis
    unfolding h4 fst_conv snd_conv by (simp add: getConversation_def)
qed

text \<open>
  Timestamps are whole seconds: a turn that starts and ends within the second in which
  the conversation was last updated leaves the updated-timestamp at 2, where it was.
\<close>

theorem same_second_turn_counterexample:
  "getConversation example_db2 example_session =
     Some \<lparr>c_id = example_session, c_createdAt = 1, c_updatedAt = 2\<rparr>
   \<and> fst (post_message example_deps
        \<lparr>conv_uuid = ''c9'', conv_now = 2200, user_uuid = ''u3'', user_now = 2300,
         ai_uuid = ''a3'', ai_now = 2900\<rparr>
        \<lparr>b_message = Str ''Return policy?'', b_sessionId = Str example_session\<rparr>
        example_db2 None) =
       Json_reply ''Returns are accepted within 30 days.'' example_session
   \<and> getConversation
        (fst (snd (post_message example_deps
          \<lparr>conv_uuid = ''c9'', conv_now = 2200, user_uuid = ''u3'', user_now = 2300,
           ai_uuid = ''a3'', ai_now = 2900\<rparr>
          \<lparr>b_message = Str ''Return policy?'', b_sessionId = Str example_session\<rparr>
          example_db2 None))) example_session =
       Some \<lparr>c_id = example_session, c_createdAt = 1, c_updatedAt = 2\<rparr>"
proof -
  have "post_message (example_deps\<lparr>sha256_hex := H\<rparr>)
        \<lparr>conv_uuid = ''c9'', conv_now = 2200, user_uuid = ''u3'', user_now = 2300,
         ai_uuid = ''a3'', ai_now = 2900\<rparr>
        \<lparr>b_message = Str ''Return policy?'', b_sessionId = Str example_session\<rparr>
        example_db2 None =
     (Json_reply ''Returns are accepted within 30 days.'' example_session,
      \<lparr>tbl_conversations = [\<lparr>c_id = example_session, c_createdAt = 1, c_updatedAt = 2\<rparr>],
       tbl_messages =
       [\<lparr>m_id = ''m1'', m_conversationId = example_session, m_sender = User, m_text = ''Hi'',
          m_timestamp = 1\<rparr>,
        \<lparr>m_id = ''m2'', m_conversationId = example_session, m_sender = Ai,
          m_text = ''Hello!'', m_timestamp = 2\<rparr>,
        \<lparr>m_id = ''u3'', m_conversationId = example_session, m_sender = User,
          m_text = ''Return policy?'', m_timestamp = 2\<rparr>,
        \<lparr>m_id = ''a3'', m_conversationId = example_session, m_sender = Ai,
          m_text = ''Returns are accepted within 30 days.'', m_timestamp = 2\<rparr>]\<rparr>,
      None,
      [Chat_call OpenAI
       (openai_request ''Return policy?''
          [\<lparr>m_id = ''m1'', m_conversationId = example_session, m_sender = User,
             m_text = ''Hi'', m_timestamp = 1\<rparr>,
           \<lparr>m_id = ''m2'', m_conversationId = example_session, m_sender = Ai,
             m_text = ''Hello!'', m_timestamp = 2\<rparr>,
           \<lparr>m_id = ''u3'', m_conversationId = example_session, m_sender = User,
             m_text = ''Return policy?'', m_timestamp = 2\<rparr>])])" for H
    by (simp add: post_message_def messageSchema_parse_def resolve_conversation_def
      handle_turn_def store_eval generateReply_example example_db2_def
      zod_uuid_example uuid_shape_example example_session_nonempty)
  from this [of "sha256_hex example_deps"] show ?thesis
    by (simp add: getConversation_def example_db2_def)
qed

end
